theory Spec2Isabelle
  imports Complex_Main
begin

section \<open>The agent and its memory stream (core/typescript/src/agent.ts)\<close>

text \<open>
  The data model follows the TypeScript declarations. A JavaScript \<open>number\<close> is modelled
  as \<open>real\<close> where it measures something, as \<open>int\<close> where it is a clock reading in
  milliseconds, and as \<open>nat\<close> where it is a counter that starts at 0 and is only ever
  incremented by one (the counters stay far below \<open>2^53\<close>, where a double stops being
  exact: an array cannot hold more than \<open>2^32 - 1\<close> records). Field names that clash
  with a HOL constant or an Isabelle keyword carry a suffix (\<open>id_m\<close>, \<open>id_a\<close>,
  \<open>id_i\<close>, \<open>values_p\<close>, \<open>end_p\<close>, \<open>type_i\<close>, \<open>type_m\<close>).
\<close>

record AgentPersonality =
  background :: string
  innateTendency :: "string list"
  learnedTendency :: "string list"
  currentGoal :: string
  lifestyle :: string
  values_p :: "string list"

record AgentSettings =
  visualRange :: real
  attention :: real
  retention :: real

record Action =
  status :: string
  emoji :: "string list"

datatype MemoryType = OBSERVATION | REFLECTION | PLAN | CONVERSATION

datatype Granularity = DAY | HOUR | MINUTE

record BaseMemory =
  id_m :: string
  createdAt :: string
  description :: string
  importance :: real
  latestAccess :: string
  embedding :: "real list"

text \<open>
  \<open>type Memory = Observation | Reflection | Plan | Conversation\<close>: a tagged union over
  \<open>BaseMemory\<close>; the tag is the constructor, read back by \<open>type_m\<close>.
\<close>

datatype Memory =
    Observation (base: BaseMemory)
  | Reflection (base: BaseMemory) (evidence: "string list")
  | Plan (base: BaseMemory) (iteration: nat) (granularity: Granularity)
      (start: real) (end_p: real) (parent: "string list")
  | Conversation (base: BaseMemory)

fun type_m :: "Memory \<Rightarrow> MemoryType" where
  "type_m (Observation b) = OBSERVATION"
| "type_m (Reflection b ev) = REFLECTION"
| "type_m (Plan b i g s e p) = PLAN"
| "type_m (Conversation b) = CONVERSATION"

record MemoryCount =
  observation :: nat
  reflection :: nat
  plan :: nat
  conversation :: nat

text \<open>
  \<open>engine\<close> is a reference to the \<open>AgentEngine\<close> object the agent talks to; the opaque
  \<open>world\<close> back-reference holds no data that the modelled code reads.
\<close>

record Agent =
  engine :: nat
  id_a :: string
  name :: string
  age :: real
  personality :: AgentPersonality
  settings :: AgentSettings
  memoryStream :: "Memory list"
  memoryCount :: MemoryCount
  latestPlanIteration :: nat
  action :: Action
  world :: unit
  location :: "string list"

definition default_settings :: AgentSettings where
  "default_settings = \<lparr>visualRange = 8, attention = 8, retention = 8\<rparr>"

text \<open>The constructor; \<open>None\<close> for \<open>settings\<close> is the omitted argument.\<close>

definition new_Agent ::
  "nat \<Rightarrow> string \<Rightarrow> string \<Rightarrow> real \<Rightarrow> AgentPersonality \<Rightarrow> AgentSettings option
     \<Rightarrow> string list \<Rightarrow> Agent" where
  "new_Agent eng i n ag p st loc =
     \<lparr>engine = eng, id_a = i, name = n, age = ag, personality = p,
      settings = (case st of None \<Rightarrow> default_settings | Some s \<Rightarrow> s),
      memoryStream = [],
      memoryCount = \<lparr>observation = 0, reflection = 0, plan = 0, conversation = 0\<rparr>,
      latestPlanIteration = 1,
      action = \<lparr>status = ''sleeping'', emoji = [[CHR 0xF0, CHR 0x9F, CHR 0x98, CHR 0xB4]]\<rparr>,
      world = (), location = loc\<rparr>"

subsection \<open>The outside world: clock, random numbers, the engine\<close>

text \<open>
  A value thrown by JavaScript code (the reason of a rejected promise).
\<close>

datatype exn = Error string | TypeError string

text \<open>
  The engine (\<open>./engine\<close>), the helper \<open>dateToString\<close> (\<open>./helpers\<close>), the system
  clock and \<open>Math.random\<close> are not part of the modelled sources: they are parameters. Each
  call to the outside is one \<^emph>\<open>effect\<close>; effects are numbered in the order in which the
  program performs them, and the answer of the outside may depend on that number, so that two
  calls with the same arguments need not get the same answer. A collaborator call either
  throws (\<open>Inl\<close>) or returns (\<open>Inr\<close>); \<open>reply\<close> may return a missing value (\<open>None\<close>).
\<close>

record env =
  Date_now :: "nat \<Rightarrow> int"
  dateToString :: "int \<Rightarrow> string"
  Math_random :: "nat \<Rightarrow> real"
  toString36 :: "real \<Rightarrow> string"
  getImportanceScore :: "nat \<Rightarrow> nat \<Rightarrow> string \<Rightarrow> exn + real"
  getEmbedding :: "nat \<Rightarrow> nat \<Rightarrow> string \<Rightarrow> exn + real list"
  reply :: "nat \<Rightarrow> nat \<Rightarrow> string \<Rightarrow> Agent \<Rightarrow> string \<Rightarrow> exn + string option"

text \<open>
  The log of the collaborator calls that a run has made, oldest first: the engine called,
  the arguments, and what the call did (\<open>Inl\<close>: it threw).
\<close>

datatype call =
    GetImportanceScore nat string "exn + real"
  | GetEmbedding nat string "exn + real list"
  | Reply nat string Agent string "exn + string option"

fun is_reply :: "call \<Rightarrow> bool" where
  "is_reply (Reply eng msg a ctx r) = True"
| "is_reply c = False"

fun thrown :: "call \<Rightarrow> exn option" where
  "thrown (GetImportanceScore eng d r) = (case r of Inl e \<Rightarrow> Some e | Inr v \<Rightarrow> None)"
| "thrown (GetEmbedding eng d r) = (case r of Inl e \<Rightarrow> Some e | Inr v \<Rightarrow> None)"
| "thrown (Reply eng msg a ctx r) = (case r of Inl e \<Rightarrow> Some e | Inr v \<Rightarrow> None)"

text \<open>
  \<open>tick\<close> counts the effects performed so far (collaborator calls, clock readings, random
  numbers); \<open>calls\<close> is the log.
\<close>

record io =
  tick :: nat
  calls :: "call list"

definition now :: "env \<Rightarrow> io \<Rightarrow> int \<times> io" where
  "now E s = (Date_now E (tick s), s\<lparr>tick := Suc (tick s)\<rparr>)"

definition random :: "env \<Rightarrow> io \<Rightarrow> real \<times> io" where
  "random E s = (Math_random E (tick s), s\<lparr>tick := Suc (tick s)\<rparr>)"

definition call_getImportanceScore :: "env \<Rightarrow> nat \<Rightarrow> string \<Rightarrow> io \<Rightarrow> (exn + real) \<times> io" where
  "call_getImportanceScore E eng d s =
     (getImportanceScore E (tick s) eng d,
      s\<lparr>tick := Suc (tick s),
        calls := calls s @ [GetImportanceScore eng d (getImportanceScore E (tick s) eng d)]\<rparr>)"

definition call_getEmbedding :: "env \<Rightarrow> nat \<Rightarrow> string \<Rightarrow> io \<Rightarrow> (exn + real list) \<times> io" where
  "call_getEmbedding E eng d s =
     (getEmbedding E (tick s) eng d,
      s\<lparr>tick := Suc (tick s),
        calls := calls s @ [GetEmbedding eng d (getEmbedding E (tick s) eng d)]\<rparr>)"

definition call_reply ::
  "env \<Rightarrow> nat \<Rightarrow> string \<Rightarrow> Agent \<Rightarrow> string \<Rightarrow> io \<Rightarrow> (exn + string option) \<times> io" where
  "call_reply E eng msg a ctx s =
     (reply E (tick s) eng msg a ctx,
      s\<lparr>tick := Suc (tick s),
        calls := calls s @ [Reply eng msg a ctx (reply E (tick s) eng msg a ctx)]\<rparr>)"

subsection \<open>Rendering a counter in a template string\<close>

text \<open>\<open>`${n}`\<close> for a natural number \<open>n\<close>: its decimal digits.\<close>

definition digit_char :: "nat \<Rightarrow> char" where
  "digit_char d = ''0123456789'' ! d"

fun dec :: "nat \<Rightarrow> string" where
  "dec n = (if n < 10 then [digit_char n] else dec (n div 10) @ [digit_char (n mod 10)])"

declare dec.simps [simp del]

text \<open>Reading the number back from an identifier \<open>obs_<n>\<close>.\<close>

definition digit_val :: "char \<Rightarrow> nat" where
  "digit_val c = of_char c - 48"

definition undec :: "string \<Rightarrow> nat" where
  "undec s = foldl (\<lambda>n c. 10 * n + digit_val c) 0 s"

definition obs_id :: "nat \<Rightarrow> string" where
  "obs_id n = ''obs_'' @ dec n"

definition id_number :: "string \<Rightarrow> nat" where
  "id_number s = undec (drop 4 s)"

subsection \<open>observe\<close>

text \<open>
  \<open>observe\<close> awaits the importance score, then the embedding; an exception of either
  rejects the promise before the agent is touched. The memory literal then reads the
  counter and the clock twice (\<open>createdAt\<close>, then \<open>latestAccess\<close>), the memory is pushed
  and the counter incremented. The result is the outcome, the agent after the call and the
  effects performed.
\<close>

definition observe :: "env \<Rightarrow> string \<Rightarrow> Agent \<Rightarrow> io \<Rightarrow> (exn + unit) \<times> Agent \<times> io" where
  "observe E d a s =
     (case call_getImportanceScore E (engine a) d s of
        (Inl e, s1) \<Rightarrow> (Inl e, a, s1)
      | (Inr imp, s1) \<Rightarrow>
          (case call_getEmbedding E (engine a) d s1 of
             (Inl e, s2) \<Rightarrow> (Inl e, a, s2)
           | (Inr emb, s2) \<Rightarrow>
               (let new_id = obs_id (observation (memoryCount a) + 1);
                    (t1, s3) = now E s2;
                    (t2, s4) = now E s3;
                    memory = Observation
                      \<lparr>id_m = new_id, createdAt = dateToString E t1, description = d,
                       importance = imp, latestAccess = dateToString E t2, embedding = emb\<rparr>
                in (Inr (),
                    a\<lparr>memoryStream := memoryStream a @ [memory],
                      memoryCount := (memoryCount a)
                        \<lparr>observation := observation (memoryCount a) + 1\<rparr>\<rparr>,
                    s4))))"

text \<open>
  A caller that issues one \<open>observe\<close> after the other on the same agent, going on after a
  failed call; the outcomes of the calls are collected in call order.
\<close>

fun observe_all :: "env \<Rightarrow> string list \<Rightarrow> Agent \<Rightarrow> io \<Rightarrow> (exn + unit) list \<times> Agent \<times> io" where
  "observe_all E [] a s = ([], a, s)"
| "observe_all E (d # ds) a s =
     (case observe E d a s of
        (r, a1, s1) \<Rightarrow> (case observe_all E ds a1 s1 of (rs, a2, s2) \<Rightarrow> (r # rs, a2, s2)))"

definition successes :: "(exn + unit) list \<Rightarrow> nat" where
  "successes rs = length (filter (\<lambda>r. r = Inr ()) rs)"

text \<open>The identifiers of the observations of a stream, in stream order.\<close>

definition observation_ids :: "Memory list \<Rightarrow> string list" where
  "observation_ids ms = map (\<lambda>m. id_m (base m)) (filter (\<lambda>m. type_m m = OBSERVATION) ms)"

text \<open>
  The observation identifiers of a stream agree with the counter: they are
  \<open>obs_1, \<dots>, obs_c\<close>, in this order, for the counter value \<open>c\<close>.
\<close>

definition ids_wf :: "Agent \<Rightarrow> bool" where
  "ids_wf a \<longleftrightarrow>
     observation_ids (memoryStream a) = map obs_id [1 ..< Suc (observation (memoryCount a))]"

section \<open>The interaction service (InteractionService)\<close>

datatype InteractionType = I_conversation | I_observation | I_rumor

record Interaction =
  id_i :: string
  initiatorId :: string
  targetId :: string
  type_i :: InteractionType
  content :: string
  timestamp :: int

text \<open>
  The service's own \<open>Memory\<close> interface (not the agent's \<open>Memory\<close>): what an agent was
  told or saw, keyed by agent id. Its fields \<open>content\<close>, \<open>timestamp\<close> and \<open>type\<close> carry the
  suffix \<open>_s\<close>.
\<close>

datatype MemoryKind = M_direct | M_observed | M_rumor

record ServiceMemory =
  agentId :: string
  content_s :: string
  timestamp_s :: int
  source :: string
  type_s :: MemoryKind
  reliability :: real

record InteractionService =
  interactions :: "Interaction list"
  memories :: "string \<rightharpoonup> ServiceMemory list"
  proximityThreshold :: real

definition new_InteractionService :: InteractionService where
  "new_InteractionService =
     \<lparr>interactions = [], memories = Map.empty, proximityThreshold = 100\<rparr>"

subsection \<open>Strings and arrays of the JavaScript library\<close>

text \<open>\<open>Array.prototype.join\<close>.\<close>

fun join :: "string \<Rightarrow> string list \<Rightarrow> string" where
  "join sep [] = []"
| "join sep [p] = p"
| "join sep (p # q # ps) = p @ sep @ join sep (q # ps)"

text \<open>
  \<open>slice(lo, hi)\<close> of arrays and strings on integer arguments: a negative index counts
  from the end, and both are clamped to the length.
\<close>

definition slice :: "'a list \<Rightarrow> int \<Rightarrow> int \<Rightarrow> 'a list" where
  "slice xs lo hi =
     (let len = int (length xs);
          k = (if lo < 0 then max (len + lo) 0 else min lo len);
          final = (if hi < 0 then max (len + hi) 0 else min hi len)
      in take (nat (max (final - k) 0)) (drop (nat k) xs))"

text \<open>\<open>String.prototype.split\<close> on a one-character separator: never the empty array.\<close>

fun split_on :: "char \<Rightarrow> string \<Rightarrow> string list" where
  "split_on c [] = [[]]"
| "split_on c (h # rest) =
     (if h = c then [] # split_on c rest
      else (case split_on c rest of [] \<Rightarrow> [[h]] | p # ps \<Rightarrow> (h # p) # ps))"

subsection \<open>Positions and canInteract\<close>

text \<open>
  \<open>canInteract\<close> takes any two objects with numeric fields \<open>x\<close> and \<open>y\<close> (here \<open>pos_x\<close>,
  \<open>pos_y\<close>). The source computes in IEEE 754 doubles: two subtractions, two calls of
  \<open>Math.pow\<close> (whose result the language leaves to the implementation), an addition and
  \<open>Math.sqrt\<close>, each rounded. The definition below is that computation without the
  rounding, over the reals. It is the source's computation wherever none of these
  operations rounds, as for the integer coordinates of the runs evaluated below
  (differences 48 and 64, squares 2304 and 4096, sum 6400, root 80). It is not used to
  decide positions at which the rounding matters: within rounding distance of the
  threshold the source can answer differently, and coordinates that are \<open>NaN\<close> or infinite
  have no counterpart here.
\<close>

record position =
  pos_x :: real
  pos_y :: real

definition canInteract ::
  "InteractionService \<Rightarrow> 'a position_scheme \<Rightarrow> 'b position_scheme \<Rightarrow> bool" where
  "canInteract S agent1 agent2 =
     (let distance = sqrt ((pos_x agent1 - pos_x agent2)\<^sup>2 + (pos_y agent1 - pos_y agent2)\<^sup>2)
      in distance \<le> proximityThreshold S)"

subsection \<open>The heap: agents, sprites, the service\<close>

text \<open>
  Agents and sprites are objects that several places refer to and mutate; they live in a
  heap indexed by reference. \<open>interactionService\<close> is the one exported instance of the
  service, \<open>scene_characters\<close> the array \<open>scene.characters\<close> (\<open>None\<close> when the scene has
  none), \<open>outside\<close> the effects performed so far. Of a sprite only the fields that the
  modelled code reads or writes are kept; its rendering is not modelled.
\<close>

record AgentCharacter = position +
  agent :: nat
  lastInteractionTime :: int
  minInteractionInterval :: int
  speechBubbleDuration :: int

record state =
  agents :: "nat \<Rightarrow> Agent"
  characters :: "nat \<Rightarrow> AgentCharacter"
  scene_characters :: "nat list option"
  interactionService :: InteractionService
  outside :: io

text \<open>\<open>a.observe(d)\<close> on the agent object with reference \<open>r\<close>.\<close>

definition observe_at :: "env \<Rightarrow> nat \<Rightarrow> string \<Rightarrow> state \<Rightarrow> (exn + unit) \<times> state" where
  "observe_at E r d w =
     (case observe E d (agents w r) (outside w) of
        (res, a', s') \<Rightarrow> (res, w\<lparr>agents := (agents w)(r := a'), outside := s'\<rparr>))"

subsection \<open>Generating the content\<close>

definition conversation_context :: "Agent \<Rightarrow> Agent \<Rightarrow> string" where
  "conversation_context initiator target =
     ''\<newline>      '' @ name initiator @ '''s background: '' @ background (personality initiator) @
     ''\<newline>      '' @ name initiator @ '''s current goal: '' @ currentGoal (personality initiator) @
     ''\<newline>      '' @ name target @ '''s background: '' @ background (personality target) @
     ''\<newline>      '' @ name target @ '''s current goal: '' @ currentGoal (personality target) @
     ''\<newline>    ''"

definition conversation_message :: "Agent \<Rightarrow> string" where
  "conversation_message target =
     ''You are having a conversation with '' @ name target @
     ''. Generate a very brief, natural conversation (1-2 sentences each) considering both of your backgrounds and goals. Keep it concise and casual.''"

text \<open>
  \<open>try { const response = await ...; return response || fallback } catch { return fallback }\<close>:
  an exception, a missing value and the empty string all give the fallback.
\<close>

definition response_or :: "exn + string option \<Rightarrow> string \<Rightarrow> string" where
  "response_or r fallback =
     (case r of
        Inl e \<Rightarrow> fallback
      | Inr None \<Rightarrow> fallback
      | Inr (Some response) \<Rightarrow> (if response = [] then fallback else response))"

definition generateConversation :: "env \<Rightarrow> Agent \<Rightarrow> Agent \<Rightarrow> io \<Rightarrow> string \<times> io" where
  "generateConversation E initiator target s =
     (case call_reply E (engine initiator) (conversation_message target) initiator
             (conversation_context initiator target) s of
        (r, s1) \<Rightarrow> (response_or r ''Failed to generate conversation'', s1))"

text \<open>
  \<open>knownFacts.filter(m => m.timestamp > Date.now() - 24 * 60 * 60 * 1000)\<close>: the predicate
  reads the clock once for every element.
\<close>

fun filter_recent :: "env \<Rightarrow> ServiceMemory list \<Rightarrow> io \<Rightarrow> ServiceMemory list \<times> io" where
  "filter_recent E [] s = ([], s)"
| "filter_recent E (m # ms) s =
     (case now E s of
        (t, s1) \<Rightarrow>
          (case filter_recent E ms s1 of
             (keep, s2) \<Rightarrow>
               (if timestamp_s m > t - 24 * 60 * 60 * 1000 then m # keep else keep, s2)))"

definition rumor_context :: "Agent \<Rightarrow> ServiceMemory list \<Rightarrow> string" where
  "rumor_context a facts =
     ''\<newline>      Your personality traits: '' @ join '', '' (innateTendency (personality a)) @
     ''\<newline>      Recent events and information you know about:'' @
     ''\<newline>      '' @ join ''\<newline>'' (map content_s facts) @
     ''\<newline>    ''"

definition rumor_message :: string where
  "rumor_message =
     ''Share a brief, interesting rumor or piece of gossip (1-2 sentences) based on what you know.''"

definition generateRumor :: "env \<Rightarrow> Agent \<Rightarrow> ServiceMemory list \<Rightarrow> io \<Rightarrow> string \<times> io" where
  "generateRumor E a knownFacts s =
     (case filter_recent E knownFacts s of
        (facts, s1) \<Rightarrow>
          (case call_reply E (engine a) rumor_message a (rumor_context a facts) s1 of
             (r, s2) \<Rightarrow> (response_or r ''Failed to generate rumor'', s2)))"

subsection \<open>Recording and reading\<close>

definition recordMemory ::
  "env \<Rightarrow> string \<Rightarrow> string \<Rightarrow> MemoryKind \<Rightarrow> string \<Rightarrow> state \<Rightarrow> state" where
  "recordMemory E aid c ty src w =
     (case now E (outside w) of
        (t, s1) \<Rightarrow>
          (let memory = \<lparr>agentId = aid, content_s = c, timestamp_s = t, source = src,
                         type_s = ty,
                         reliability = (if ty = M_direct then 1
                                        else if ty = M_observed then 0.8 else 0.5)\<rparr>;
               S = interactionService w;
               old = (case memories S aid of None \<Rightarrow> [] | Some ms \<Rightarrow> ms)
           in w\<lparr>interactionService := S\<lparr>memories := (memories S)(aid \<mapsto> old @ [memory])\<rparr>,
                outside := s1\<rparr>))"

definition getAgentMemories :: "InteractionService \<Rightarrow> string \<Rightarrow> ServiceMemory list" where
  "getAgentMemories S aid = (case memories S aid of None \<Rightarrow> [] | Some ms \<Rightarrow> ms)"

text \<open>
  \<open>this.interactions.sort((a, b) => b.timestamp - a.timestamp).slice(0, limit)\<close>: the sort
  is stable and in place, so the service keeps the sorted array; \<open>None\<close> is the omitted
  argument, which defaults to 10.
\<close>

definition getRecentInteractions ::
  "int option \<Rightarrow> InteractionService \<Rightarrow> Interaction list \<times> InteractionService" where
  "getRecentInteractions limit S =
     (let n = (case limit of None \<Rightarrow> 10 | Some l \<Rightarrow> l);
          sorted_is = sort_key (\<lambda>i. - timestamp i) (interactions S)
      in (slice sorted_is 0 n, S\<lparr>interactions := sorted_is\<rparr>))"

subsection \<open>createInteraction\<close>

definition observation_content :: "Agent \<Rightarrow> Agent \<Rightarrow> string" where
  "observation_content initiator target =
     name initiator @ '' observed '' @ name target @ '' '' @
     (if currentGoal (personality target) = [] then ''doing something''
      else currentGoal (personality target))"

text \<open>
  The \<open>switch\<close> at the head of \<open>createInteraction\<close>, which computes \<open>content\<close>; \<open>i\<close> and
  \<open>t\<close> are the references of the initiator and of the target.
\<close>

definition interaction_content ::
  "env \<Rightarrow> nat \<Rightarrow> nat \<Rightarrow> InteractionType \<Rightarrow> state \<Rightarrow> string \<times> io" where
  "interaction_content E i t ty w =
     (let initiator = agents w i;
          target = agents w t
      in (case ty of
            I_conversation \<Rightarrow> generateConversation E initiator target (outside w)
          | I_rumor \<Rightarrow>
              generateRumor E initiator
                (case memories (interactionService w) (id_a initiator) of
                   None \<Rightarrow> [] | Some ms \<Rightarrow> ms)
                (outside w)
          | I_observation \<Rightarrow> (observation_content initiator target, outside w)))"

text \<open>
  The middle of \<open>createInteraction\<close>: the interaction with content \<open>c\<close> is built (a random
  identifier, then the timestamp) and pushed, and \<open>recordMemory\<close> is called for the
  initiator and for the target.
\<close>

definition record_interaction ::
  "env \<Rightarrow> nat \<Rightarrow> nat \<Rightarrow> InteractionType \<Rightarrow> string \<Rightarrow> state \<Rightarrow> Interaction \<times> state" where
  "record_interaction E i t ty c w =
     (let initiator = agents w i;
          target = agents w t;
          (r, s2) = random E (outside w);
          (ts, s3) = now E s2;
          interaction =
            \<lparr>id_i = slice (toString36 E r) 2 9, initiatorId = id_a initiator,
             targetId = id_a target, type_i = ty, content = c, timestamp = ts\<rparr>;
          S = interactionService w;
          w1 = w\<lparr>interactionService := S\<lparr>interactions := interactions S @ [interaction]\<rparr>,
                 outside := s3\<rparr>;
          w2 = recordMemory E (id_a initiator) c M_direct (id_a target) w1;
          w3 = recordMemory E (id_a target) c (if ty = I_rumor then M_rumor else M_direct)
                 (id_a initiator) w2
      in (interaction, w3))"

text \<open>
  \<open>createInteraction\<close>: the content, the recording, then \<open>initiator.observe(content)\<close> and
  \<open>target.observe(content)\<close>, each awaited; an exception of either leaves the function at
  that point, with everything done before it in place. The function has no \<open>return null\<close>.
\<close>

definition createInteraction ::
  "env \<Rightarrow> nat \<Rightarrow> nat \<Rightarrow> InteractionType \<Rightarrow> state \<Rightarrow> (exn + Interaction option) \<times> state" where
  "createInteraction E i t ty w =
     (case interaction_content E i t ty w of
        (c, s1) \<Rightarrow>
          (case record_interaction E i t ty c (w\<lparr>outside := s1\<rparr>) of
             (interaction, w3) \<Rightarrow>
               (case observe_at E i c w3 of
                  (Inl e, w4) \<Rightarrow> (Inl e, w4)
                | (Inr u, w4) \<Rightarrow>
                    (case observe_at E t c w4 of
                       (Inl e, w5) \<Rightarrow> (Inl e, w5)
                     | (Inr u', w5) \<Rightarrow> (Inr (Some interaction), w5)))))"

text \<open>
  What \<open>filter_recent\<close> lets through when its first clock reading is effect number \<open>k0\<close>:
  the \<open>j\<close>-th memory is compared with the clock reading of effect \<open>k0 + j\<close>.
\<close>

definition recent_facts :: "env \<Rightarrow> nat \<Rightarrow> ServiceMemory list \<Rightarrow> ServiceMemory list" where
  "recent_facts E k0 known =
     map fst (filter (\<lambda>(m, k). Date_now E k - 24 * 60 * 60 * 1000 < timestamp_s m)
                (zip known [k0 ..< k0 + length known]))"

text \<open>The collaborator calls made between the state \<open>w\<close> and the later state \<open>w'\<close>.\<close>

definition new_calls :: "state \<Rightarrow> state \<Rightarrow> call list" where
  "new_calls w w' = drop (length (calls (outside w))) (calls (outside w'))"

subsection \<open>checkForInteractions (AgentCharacter)\<close>

text \<open>
  One pass of the \<open>for\<close> loop over \<open>scene.characters\<close> for the sprite \<open>this\<close> and the sprite
  \<open>other\<close>. The destructuring \<open>[initiatorText, targetText] = content.split('|')\<close> leaves
  \<open>targetText\<close> undefined when the content has no \<open>|\<close>, and \<open>targetText.trim()\<close> then
  throws a \<open>TypeError\<close>, after the first speech bubble and before the two assignments
  to \<open>lastInteractionTime\<close>.
\<close>

definition interact_with :: "env \<Rightarrow> nat \<Rightarrow> nat \<Rightarrow> state \<Rightarrow> (exn + unit) \<times> state" where
  "interact_with E this other w =
     (if other = this then (Inr (), w)
      else if canInteract (interactionService w) (characters w this) (characters w other) then
        (case random E (outside w) of
           (r1, s1) \<Rightarrow>
             (if r1 < 0.3 then
                (case random E s1 of
                   (r2, s2) \<Rightarrow>
                     (let interactionType = (if r2 < 0.7 then I_conversation else I_rumor)
                      in (case createInteraction E (agent (characters w this))
                                 (agent (characters w other)) interactionType
                                 (w\<lparr>outside := s2\<rparr>) of
                            (Inl e, w1) \<Rightarrow> (Inl e, w1)
                          | (Inr None, w1) \<Rightarrow> (Inr (), w1)
                          | (Inr (Some interaction), w1) \<Rightarrow>
                              (case split_on CHR ''|'' (content interaction) of
                                 initiatorText # targetText # more_texts \<Rightarrow>
                                   (case now E (outside w1) of
                                      (t1, s3) \<Rightarrow>
                                        (case now E s3 of
                                           (t2, s4) \<Rightarrow>
                                             (let cs1 = (characters w1)
                                                    (this := (characters w1 this)
                                                       \<lparr>lastInteractionTime := t1\<rparr>);
                                                  cs2 = cs1
                                                    (other := (cs1 other)
                                                       \<lparr>lastInteractionTime := t2\<rparr>)
                                              in (Inr (), w1\<lparr>characters := cs2,
                                                              outside := s4\<rparr>))))
                               | _ \<Rightarrow>
                                   (Inl (TypeError
                                      ''Cannot read properties of undefined (reading 'trim')''),
                                    w1)))))
              else (Inr (), w\<lparr>outside := s1\<rparr>)))
      else (Inr (), w))"

fun for_characters :: "env \<Rightarrow> nat \<Rightarrow> nat list \<Rightarrow> state \<Rightarrow> (exn + unit) \<times> state" where
  "for_characters E this [] w = (Inr (), w)"
| "for_characters E this (other # rest) w =
     (case interact_with E this other w of
        (Inl e, w1) \<Rightarrow> (Inl e, w1)
      | (Inr u, w1) \<Rightarrow> for_characters E this rest w1)"

definition checkForInteractions :: "env \<Rightarrow> nat \<Rightarrow> state \<Rightarrow> (exn + unit) \<times> state" where
  "checkForInteractions E this w =
     (case now E (outside w) of
        (t, s1) \<Rightarrow>
          (if t - lastInteractionTime (characters w this)
                < minInteractionInterval (characters w this)
           then (Inr (), w\<lparr>outside := s1\<rparr>)
           else (case scene_characters w of
                   None \<Rightarrow> (Inr (), w\<lparr>outside := s1\<rparr>)
                 | Some cs \<Rightarrow> for_characters E this cs (w\<lparr>outside := s1\<rparr>))))"

text \<open>The sprite as its constructor leaves it (of the modelled fields).\<close>

definition new_AgentCharacter :: "nat \<Rightarrow> real \<Rightarrow> real \<Rightarrow> AgentCharacter" where
  "new_AgentCharacter a px py =
     \<lparr>pos_x = px, pos_y = py, agent = a, lastInteractionTime = 0,
      minInteractionInterval = 10000, speechBubbleDuration = 10000\<rparr>"

section \<open>Concrete agents, worlds and environments\<close>

text \<open>
  Two agents fresh from the constructor, two sprites 80 pixels apart, and an outside world
  in which every collaborator call succeeds, the clock advances by one millisecond per
  effect (starting at 20000) and \<open>dateToString\<close> prints the milliseconds.
\<close>

definition alice :: Agent where
  "alice = new_Agent 0 ''alice'' ''Alice'' 30
     \<lparr>background = ''a gardener'', innateTendency = [''curious'', ''kind''],
      learnedTendency = [], currentGoal = ''watering the roses'', lifestyle = ''early riser'',
      values_p = [''honesty'']\<rparr> None []"

definition bob :: Agent where
  "bob = new_Agent 1 ''bob'' ''Bob'' 41
     \<lparr>background = ''a baker'', innateTendency = [''calm''],
      learnedTendency = [], currentGoal = [], lifestyle = ''night owl'',
      values_p = []\<rparr> None []"

definition io0 :: io where
  "io0 = \<lparr>tick = 0, calls = []\<rparr>"

definition ms_string :: "int \<Rightarrow> string" where
  "ms_string ms = dec (nat ms)"

definition E_ok :: env where
  "E_ok =
     \<lparr>Date_now = (\<lambda>k. 20000 + int k),
      dateToString = ms_string,
      Math_random = (\<lambda>k. 1 / 10),
      toString36 = (\<lambda>r. ''0.3llllllllll''),
      getImportanceScore = (\<lambda>k eng d. Inr 5),
      getEmbedding = (\<lambda>k eng d. Inr [1 / 2, 1 / 4]),
      reply = (\<lambda>k eng msg a ctx. Inr (Some ''Lovely roses! | Thank you.''))\<rparr>"

text \<open>The engine of the agent with engine reference 1 cannot score; the other can.\<close>

definition E_target_fails :: env where
  "E_target_fails =
     E_ok\<lparr>getImportanceScore :=
            (\<lambda>k eng d. if eng = 1 then Inl (Error ''timeout'') else Inr 5)\<rparr>"

text \<open>Text generation is down: every \<open>reply\<close> throws.\<close>

definition E_no_text :: env where
  "E_no_text = E_ok\<lparr>reply := (\<lambda>k eng msg a ctx. Inl (Error ''timeout''))\<rparr>"


definition w0 :: state where
  "w0 =
     \<lparr>agents = (\<lambda>r. if r = 0 then alice else bob),
      characters = (\<lambda>r. if r = 0 then new_AgentCharacter 0 100 100
                         else new_AgentCharacter 1 148 164),
      scene_characters = Some [0, 1],
      interactionService = new_InteractionService,
      outside = io0\<rparr>"

text \<open>The scoring collaborator cannot score the description \<open>b\<close>.\<close>

definition E_no_b :: env where
  "E_no_b =
     E_ok\<lparr>getImportanceScore :=
            (\<lambda>k eng d. if d = ''b'' then Inl (Error ''timeout'') else Inr 5)\<rparr>"

text \<open>The embedding collaborator is down.\<close>

definition E_no_embedding :: env where
  "E_no_embedding = E_ok\<lparr>getEmbedding := (\<lambda>k eng d. Inl (Error ''timeout''))\<rparr>"

text \<open>A service that has recorded three interactions and no memory of \<open>carol\<close>.\<close>

definition S3 :: InteractionService where
  "S3 = new_InteractionService
     \<lparr>interactions :=
        [\<lparr>id_i = ''3llllll'', initiatorId = ''alice'', targetId = ''bob'',
          type_i = I_observation, content = ''Alice observed Bob doing something'',
          timestamp = 20002\<rparr>,
         \<lparr>id_i = ''7aaaaaa'', initiatorId = ''bob'', targetId = ''alice'',
          type_i = I_conversation, content = ''Lovely roses! | Thank you.'',
          timestamp = 20050\<rparr>,
         \<lparr>id_i = ''9zzzzzz'', initiatorId = ''alice'', targetId = ''bob'',
          type_i = I_rumor, content = ''Failed to generate rumor'',
          timestamp = 20020\<rparr>]\<rparr>"

text \<open>
  A world in which the service has recorded two memories for \<open>alice\<close>, at the
  milliseconds 5 and 6, and an outside whose clock stands just under 24 hours later and
  advances by two milliseconds per effect.
\<close>

definition fact1 :: ServiceMemory where
  "fact1 = \<lparr>agentId = ''alice'', content_s = ''Bob burnt the bread'', timestamp_s = 5,
            source = ''bob'', type_s = M_direct, reliability = 1\<rparr>"

definition fact2 :: ServiceMemory where
  "fact2 = \<lparr>agentId = ''alice'', content_s = ''Bob bought a dog'', timestamp_s = 6,
            source = ''bob'', type_s = M_rumor, reliability = 1 / 2\<rparr>"

definition w_day :: state where
  "w_day = w0\<lparr>interactionService :=
     new_InteractionService\<lparr>memories := [''alice'' \<mapsto> [fact1, fact2]]\<rparr>\<rparr>"

definition E_day :: env where
  "E_day = E_ok\<lparr>Date_now := (\<lambda>k. 86400004 + 2 * int k)\<rparr>"

text \<open>The same outside with a clock that stands still.\<close>

definition E_still :: env where
  "E_still = E_ok\<lparr>Date_now := (\<lambda>k. 86400005)\<rparr>"

text \<open>
  What the collaborator of these environments makes of a description: the observation it
  leads to (with identifier and stamps as given) and the two entries of the call log.
\<close>

definition stored :: "string \<Rightarrow> string \<Rightarrow> string \<Rightarrow> string \<Rightarrow> Memory" where
  "stored i d c l =
     Observation \<lparr>id_m = i, createdAt = c, description = d, importance = 5,
                  latestAccess = l, embedding = [1 / 2, 1 / 4]\<rparr>"

definition scored :: "nat \<Rightarrow> string \<Rightarrow> call list" where
  "scored eng d = [GetImportanceScore eng d (Inr 5), GetEmbedding eng d (Inr [1 / 2, 1 / 4])]"

section \<open>Properties of observe\<close>

subsection \<open>Identifiers\<close>

lemma digit_val_digit_char: "d < 10 \<Longrightarrow> digit_val (digit_char d) = d"
  unfolding digit_val_def digit_char_def
  by (simp add: numeral_eq_Suc less_Suc_eq) auto

lemma undec_append: "undec (s @ [c]) = 10 * undec s + digit_val c"
  by (simp add: undec_def)

lemma undec_dec: "undec (dec n) = n"
proof (induction n rule: dec.induct)
  case (1 n)
  show ?case
  proof (cases "n < 10")
    case True
    then show ?thesis by (simp add: dec.simps[of n] undec_def digit_val_digit_char)
  next
    case False
    with 1 have "undec (dec (n div 10)) = n div 10" by simp
    with False show ?thesis
      by (simp add: dec.simps[of n] undec_append digit_val_digit_char)
  qed
qed

lemma id_number_obs_id: "id_number (obs_id n) = n"
  by (simp add: id_number_def obs_id_def undec_dec)

lemma sorted_numbers: "sorted_wrt (<) (map id_number (map obs_id [i ..< j]))"
proof -
  have "map id_number (map obs_id [i ..< j]) = [i ..< j]"
    by (simp add: id_number_obs_id comp_def map_idI)
  then show ?thesis by simp
qed

lemma distinct_obs_ids: "distinct (map obs_id [i ..< j])"
  by (simp add: distinct_map inj_on_def) (metis id_number_obs_id)

lemma observation_ids_append:
  "observation_ids (xs @ ys) = observation_ids xs @ observation_ids ys"
  by (simp add: observation_ids_def)

lemma observation_ids_all:
  "\<forall>m \<in> set news. type_m m = OBSERVATION \<Longrightarrow>
   observation_ids news = map (\<lambda>m. id_m (base m)) news"
  by (simp add: observation_ids_def)

subsection \<open>One call\<close>

lemma observe_Inl:
  "fst (observe E d a s) = Inl e \<Longrightarrow> fst (snd (observe E d a s)) = a"
  by (auto simp: observe_def call_getImportanceScore_def call_getEmbedding_def now_def Let_def
      split: sum.splits prod.splits)

lemma observe_score_fails:
  "getImportanceScore E (tick s) (engine a) d = Inl e \<Longrightarrow> fst (observe E d a s) = Inl e"
  by (simp add: observe_def call_getImportanceScore_def)

lemma observe_embed_fails:
  "getImportanceScore E (tick s) (engine a) d = Inr imp \<Longrightarrow>
   getEmbedding E (Suc (tick s)) (engine a) d = Inl e \<Longrightarrow> fst (observe E d a s) = Inl e"
  by (simp add: observe_def call_getImportanceScore_def call_getEmbedding_def)

lemma observe_Inr:
  assumes "fst (observe E d a s) = Inr u"
  shows "getImportanceScore E (tick s) (engine a) d =
           Inr (projr (getImportanceScore E (tick s) (engine a) d))"
    and "getEmbedding E (Suc (tick s)) (engine a) d =
           Inr (projr (getEmbedding E (Suc (tick s)) (engine a) d))"
    and "fst (snd (observe E d a s)) =
      a\<lparr>memoryStream := memoryStream a @
          [Observation \<lparr>id_m = obs_id (observation (memoryCount a) + 1),
             createdAt = dateToString E (Date_now E (tick s + 2)),
             description = d,
             importance = projr (getImportanceScore E (tick s) (engine a) d),
             latestAccess = dateToString E (Date_now E (tick s + 3)),
             embedding = projr (getEmbedding E (Suc (tick s)) (engine a) d)\<rparr>],
        memoryCount := (memoryCount a)\<lparr>observation := observation (memoryCount a) + 1\<rparr>\<rparr>"
  using assms
  by (auto simp: observe_def call_getImportanceScore_def call_getEmbedding_def now_def Let_def
      eval_nat_numeral split: sum.splits prod.splits)

lemma observe_step:
  obtains (fails) e where "fst (observe E d a s) = Inl e" "fst (snd (observe E d a s)) = a"
  | (succeeds) b where "fst (observe E d a s) = Inr ()"
      "fst (snd (observe E d a s)) =
         a\<lparr>memoryStream := memoryStream a @ [Observation b],
           memoryCount := (memoryCount a)\<lparr>observation := Suc (observation (memoryCount a))\<rparr>\<rparr>"
      "id_m b = obs_id (Suc (observation (memoryCount a)))" "description b = d"
proof (cases "fst (observe E d a s)")
  case (Inl e)
  then show ?thesis using observe_Inl fails by blast
next
  case (Inr u)
  from observe_Inr(3)[OF this] Inr show ?thesis
    by (intro succeeds) auto
qed

text \<open>
  C2. If the collaborator throws on the importance request, or returns a score and throws
  on the embedding request, \<open>observe\<close> fails with that exception (the rejection the
  specification calls \<open>ScoringUnavailable\<close>) and the agent is exactly as before: no memory
  is appended and no counter is incremented.
\<close>

theorem observe_scoring_unavailable:
  assumes "getImportanceScore E (tick s) (engine a) d = Inl e
           \<or> (\<exists>imp. getImportanceScore E (tick s) (engine a) d = Inr imp)
               \<and> getEmbedding E (Suc (tick s)) (engine a) d = Inl e"
  shows "fst (observe E d a s) = Inl e
         \<and> fst (snd (observe E d a s)) = a
         \<and> memoryStream (fst (snd (observe E d a s))) = memoryStream a
         \<and> memoryCount (fst (snd (observe E d a s))) = memoryCount a"
proof -
  from assms have "fst (observe E d a s) = Inl e"
    using observe_score_fails observe_embed_fails by blast
  moreover from this have "fst (snd (observe E d a s)) = a" by (rule observe_Inl)
  ultimately show ?thesis by simp
qed

theorem observe_scoring_unavailable_witness:
  "(\<exists>imp. getImportanceScore E_no_embedding (tick io0) (engine alice) ''saw a fire'' = Inr imp)
   \<and> getEmbedding E_no_embedding (Suc (tick io0)) (engine alice) ''saw a fire''
       = Inl (Error ''timeout'')
   \<and> fst (observe E_no_embedding ''saw a fire'' alice io0) = Inl (Error ''timeout'')
   \<and> fst (snd (observe E_no_embedding ''saw a fire'' alice io0)) = alice
   \<and> memoryStream (fst (snd (observe E_no_embedding ''saw a fire'' alice io0))) = []
   \<and> observation (memoryCount (fst (snd (observe E_no_embedding ''saw a fire'' alice io0)))) = 0"
proof -
  have h: "getImportanceScore E_no_embedding (tick io0) (engine alice) ''saw a fire'' = Inr 5"
    "getEmbedding E_no_embedding (Suc (tick io0)) (engine alice) ''saw a fire''
       = Inl (Error ''timeout'')"
    by (simp_all add: E_no_embedding_def E_ok_def)
  have m: "memoryStream alice = []" "observation (memoryCount alice) = 0"
    by (simp_all add: alice_def new_Agent_def)
  from h have "getImportanceScore E_no_embedding (tick io0) (engine alice) ''saw a fire''
           = Inl (Error ''timeout'')
        \<or> (\<exists>imp. getImportanceScore E_no_embedding (tick io0) (engine alice) ''saw a fire''
                   = Inr imp)
           \<and> getEmbedding E_no_embedding (Suc (tick io0)) (engine alice) ''saw a fire''
               = Inl (Error ''timeout'')"
    by blast
  from observe_scoring_unavailable[OF this] h m show ?thesis by simp
qed

subsection \<open>Concrete runs\<close>

lemmas run_defs = observe_def call_getImportanceScore_def call_getEmbedding_def now_def
  obs_id_def dec.simps digit_char_def ms_string_def Let_def

lemma run_fire:
  "observe E_ok ''saw a fire'' alice io0 =
     (Inr (),
      alice\<lparr>memoryStream :=
          [Observation \<lparr>id_m = ''obs_1'', createdAt = ''20002'', description = ''saw a fire'',
             importance = 5, latestAccess = ''20003'', embedding = [1 / 2, 1 / 4]\<rparr>],
        memoryCount := \<lparr>observation = 1, reflection = 0, plan = 0, conversation = 0\<rparr>\<rparr>,
      \<lparr>tick = 4, calls = [GetImportanceScore 0 ''saw a fire'' (Inr 5),
         GetEmbedding 0 ''saw a fire'' (Inr [1 / 2, 1 / 4])]\<rparr>)"
  by (simp add: run_defs E_ok_def alice_def new_Agent_def io0_def)

lemma run_abc:
  "observe_all E_no_b [''a'', ''b'', ''c''] alice io0 =
     ([Inr (), Inl (Error ''timeout''), Inr ()],
      alice\<lparr>memoryStream :=
          [Observation \<lparr>id_m = ''obs_1'', createdAt = ''20002'', description = ''a'',
             importance = 5, latestAccess = ''20003'', embedding = [1 / 2, 1 / 4]\<rparr>,
           Observation \<lparr>id_m = ''obs_2'', createdAt = ''20007'', description = ''c'',
             importance = 5, latestAccess = ''20008'', embedding = [1 / 2, 1 / 4]\<rparr>],
        memoryCount := \<lparr>observation = 2, reflection = 0, plan = 0, conversation = 0\<rparr>\<rparr>,
      \<lparr>tick = 9, calls = [GetImportanceScore 0 ''a'' (Inr 5),
         GetEmbedding 0 ''a'' (Inr [1 / 2, 1 / 4]),
         GetImportanceScore 0 ''b'' (Inl (Error ''timeout'')),
         GetImportanceScore 0 ''c'' (Inr 5), GetEmbedding 0 ''c'' (Inr [1 / 2, 1 / 4])]\<rparr>)"
  by (simp add: run_defs E_no_b_def E_ok_def alice_def new_Agent_def io0_def)

subsection \<open>Sequences of calls\<close>

lemma observe_all_run:
  "observe_all E ds a s = (rs, a', s') \<Longrightarrow>
   \<exists>news. memoryStream a' = memoryStream a @ news
     \<and> (\<forall>m \<in> set news. type_m m = OBSERVATION)
     \<and> map (\<lambda>m. id_m (base m)) news =
         map obs_id [Suc (observation (memoryCount a)) ..<
                     Suc (observation (memoryCount a)) + successes rs]
     \<and> observation (memoryCount a') = observation (memoryCount a) + successes rs
     \<and> length rs = length ds"
proof (induction ds arbitrary: a s rs a' s')
  case Nil
  then show ?case by (simp add: successes_def)
next
  case (Cons d ds)
  obtain r a1 s1 where o: "observe E d a s = (r, a1, s1)" by (cases "observe E d a s")
  obtain rs1 a2 s2 where oa: "observe_all E ds a1 s1 = (rs1, a2, s2)"
    by (cases "observe_all E ds a1 s1")
  from Cons.prems o oa have eq: "rs = r # rs1" "a' = a2" by auto
  from Cons.IH[OF oa] obtain news where
    n1: "memoryStream a2 = memoryStream a1 @ news"
    and n2: "\<forall>m \<in> set news. type_m m = OBSERVATION"
    and n3: "map (\<lambda>m. id_m (base m)) news =
         map obs_id [Suc (observation (memoryCount a1)) ..<
                     Suc (observation (memoryCount a1)) + successes rs1]"
    and n4: "observation (memoryCount a2) = observation (memoryCount a1) + successes rs1"
    and n6: "length rs1 = length ds"
    by blast
  show ?case
  proof (cases rule: observe_step[of E d a s])
    case (fails e)
    with o have "r = Inl e" "a1 = a" by auto
    with eq n1 n2 n3 n4 n6 show ?thesis
      by (auto simp: successes_def)
  next
    case (succeeds b)
    with o have r: "r = Inr ()"
      and a1: "a1 = a\<lparr>memoryStream := memoryStream a @ [Observation b],
           memoryCount := (memoryCount a)\<lparr>observation := Suc (observation (memoryCount a))\<rparr>\<rparr>"
      by auto
    have s: "successes rs = Suc (successes rs1)" using eq r by (simp add: successes_def)
    let ?c = "observation (memoryCount a)"
    have up: "[Suc ?c ..< Suc ?c + Suc (successes rs1)]
        = Suc ?c # [Suc (Suc ?c) ..< Suc (Suc ?c) + successes rs1]"
      by (simp add: upt_conv_Cons)
    have "memoryStream a' = memoryStream a @ (Observation b # news)"
      using n1 a1 eq by simp
    moreover have "\<forall>m \<in> set (Observation b # news). type_m m = OBSERVATION"
      using n2 by simp
    moreover have "map (\<lambda>m. id_m (base m)) (Observation b # news) =
         map obs_id [Suc ?c ..< Suc ?c + successes rs]"
      using n3 a1 succeeds(3) s up by simp
    moreover have "observation (memoryCount a') = ?c + successes rs"
      using n4 a1 eq s by simp
    moreover have "length rs = length (d # ds)" using n6 eq by simp
    ultimately show ?thesis by blast
  qed
qed

lemma ids_wf_new_Agent: "ids_wf (new_Agent eng i n ag p st loc)"
  by (simp add: ids_wf_def new_Agent_def observation_ids_def)

text \<open>
  C3. Take an agent whose observation identifiers agree with its counter (as they do after
  the constructor) and any sequence of \<open>observe\<close> calls on it, some of which may fail. The
  counter has grown by exactly the number of successful calls; the memories stored before
  are still there; the successful calls were given the identifiers \<open>obs_(c+1)\<close>,
  \<open>obs_(c+2)\<close>, \<dots> in call order, \<open>c\<close> being the counter at the start; the numbers of
  the observation identifiers in the stream are strictly increasing, no identifier occurs
  twice, and the stream agrees with the counter again.
\<close>

theorem observe_all_ids_increasing:
  assumes "ids_wf a" and "observe_all E ds a s = (rs, a', s')"
  shows "observation (memoryCount a') = observation (memoryCount a) + successes rs
       \<and> take (length (memoryStream a)) (memoryStream a') = memoryStream a
       \<and> observation_ids (memoryStream a') =
           observation_ids (memoryStream a) @
           map obs_id [Suc (observation (memoryCount a)) ..<
                       Suc (observation (memoryCount a) + successes rs)]
       \<and> sorted_wrt (<) (map id_number (observation_ids (memoryStream a')))
       \<and> distinct (observation_ids (memoryStream a'))
       \<and> ids_wf a'"
proof -
  let ?c = "observation (memoryCount a)"
  from observe_all_run[OF assms(2)] obtain news where
    n1: "memoryStream a' = memoryStream a @ news"
    and n2: "\<forall>m \<in> set news. type_m m = OBSERVATION"
    and n3: "map (\<lambda>m. id_m (base m)) news = map obs_id [Suc ?c ..< Suc ?c + successes rs]"
    and n4: "observation (memoryCount a') = ?c + successes rs"
    by blast
  have new: "observation_ids (memoryStream a') =
      observation_ids (memoryStream a) @ map obs_id [Suc ?c ..< Suc (?c + successes rs)]"
    using n1 n2 n3 by (simp add: observation_ids_append observation_ids_all)
  have "observation_ids (memoryStream a') =
      map obs_id ([1 ..< Suc ?c] @ [Suc ?c ..< Suc ?c + successes rs])"
    using new assms(1) by (simp add: ids_wf_def)
  also have "[1 ..< Suc ?c] @ [Suc ?c ..< Suc ?c + successes rs] = [1 ..< Suc (?c + successes rs)]"
    using upt_add_eq_append[of 1 "Suc ?c" "successes rs"] by simp
  finally have all: "observation_ids (memoryStream a') = map obs_id [1 ..< Suc (?c + successes rs)]" .
  have "ids_wf a'" using all n4 by (simp add: ids_wf_def)
  moreover have "sorted_wrt (<) (map id_number (observation_ids (memoryStream a')))"
    unfolding all by (rule sorted_numbers)
  moreover have "distinct (observation_ids (memoryStream a'))"
    unfolding all by (rule distinct_obs_ids)
  ultimately show ?thesis using n1 n4 new by simp
qed


theorem observe_all_ids_increasing_witness:
  "ids_wf alice
   \<and> fst (observe_all E_no_b [''a'', ''b'', ''c''] alice io0)
       = [Inr (), Inl (Error ''timeout''), Inr ()]
   \<and> observation (memoryCount (fst (snd (observe_all E_no_b [''a'', ''b'', ''c''] alice io0))))
       = 2
   \<and> observation_ids (memoryStream (fst (snd (observe_all E_no_b [''a'', ''b'', ''c''] alice io0))))
       = [''obs_1'', ''obs_2'']
   \<and> sorted_wrt (<) (map id_number [''obs_1'', ''obs_2''])
   \<and> distinct [''obs_1'', ''obs_2'']"
proof -
  have wf: "ids_wf alice" unfolding alice_def by (rule ids_wf_new_Agent)
  have outs: "fst (observe_all E_no_b [''a'', ''b'', ''c''] alice io0)
      = [Inr (), Inl (Error ''timeout''), Inr ()]"
    unfolding run_abc by simp
  have cnt: "observation
      (memoryCount (fst (snd (observe_all E_no_b [''a'', ''b'', ''c''] alice io0)))) = 2"
    unfolding run_abc by simp
  have ids: "observation_ids
      (memoryStream (fst (snd (observe_all E_no_b [''a'', ''b'', ''c''] alice io0))))
      = [''obs_1'', ''obs_2'']"
    unfolding run_abc by (simp add: observation_ids_def)
  note ids0 = ids[unfolded run_abc fst_conv snd_conv]
  note r = observe_all_ids_increasing[OF wf run_abc, unfolded ids0]
  from r have nums: "sorted_wrt (<) (map id_number [''obs_1'', ''obs_2''])" by blast
  from r have dist: "distinct [''obs_1'', ''obs_2'']" by blast
  show ?thesis by (intro conjI wf outs cnt ids nums dist)
qed

subsection \<open>A successful call\<close>

text \<open>
  C7, as amended. A successful \<open>observe\<close> appends exactly one memory to the end of the
  stream: an observation with the given description, the identifier \<open>obs_(c+1)\<close> for the
  counter value \<open>c\<close>, and the score and the embedding that the collaborator returned. Its
  \<open>createdAt\<close> is the clock reading taken when the memory is built and its \<open>latestAccess\<close>
  the reading taken next: two readings, which give the same stamp when the clock has not
  advanced between them. The observation counter is incremented by one; the memories stored
  before, the other three counters and all other fields of the agent are unchanged.
\<close>

theorem observe_appends_one:
  assumes "observe E d a s = (Inr u, a', s')"
  shows "memoryStream a' = memoryStream a @
           [Observation
              \<lparr>id_m = obs_id (observation (memoryCount a) + 1),
               createdAt = dateToString E (Date_now E (tick s + 2)),
               description = d,
               importance = projr (getImportanceScore E (tick s) (engine a) d),
               latestAccess = dateToString E (Date_now E (tick s + 3)),
               embedding = projr (getEmbedding E (Suc (tick s)) (engine a) d)\<rparr>]
       \<and> (Date_now E (tick s + 2) = Date_now E (tick s + 3) \<longrightarrow>
            createdAt (base (last (memoryStream a'))) = latestAccess (base (last (memoryStream a'))))
       \<and> observation (memoryCount a') = observation (memoryCount a) + 1
       \<and> reflection (memoryCount a') = reflection (memoryCount a)
       \<and> plan (memoryCount a') = plan (memoryCount a)
       \<and> conversation (memoryCount a') = conversation (memoryCount a)
       \<and> a' = a\<lparr>memoryStream := memoryStream a', memoryCount := memoryCount a'\<rparr>"
proof -
  from assms have "fst (observe E d a s) = Inr u" and a': "a' = fst (snd (observe E d a s))"
    by simp_all
  from observe_Inr(3)[OF this(1)] a' show ?thesis by simp
qed

theorem observe_appends_one_witness:
  "observe E_ok ''saw a fire'' alice io0 =
     (Inr (),
      alice\<lparr>memoryStream :=
          [Observation \<lparr>id_m = ''obs_1'', createdAt = ''20002'', description = ''saw a fire'',
             importance = 5, latestAccess = ''20003'', embedding = [1 / 2, 1 / 4]\<rparr>],
        memoryCount := \<lparr>observation = 1, reflection = 0, plan = 0, conversation = 0\<rparr>\<rparr>,
      \<lparr>tick = 4, calls = [GetImportanceScore 0 ''saw a fire'' (Inr 5),
         GetEmbedding 0 ''saw a fire'' (Inr [1 / 2, 1 / 4])]\<rparr>)
   \<and> memoryStream alice = []
   \<and> dateToString E_ok (Date_now E_ok (tick io0 + 2)) = ''20002''
   \<and> dateToString E_ok (Date_now E_ok (tick io0 + 3)) = ''20003''
   \<and> obs_id (observation (memoryCount alice) + 1) = ''obs_1''"
proof -
  note r = observe_appends_one[OF run_fire]
  have m: "memoryStream alice = []" by (simp add: alice_def new_Agent_def)
  have c: "dateToString E_ok (Date_now E_ok (tick io0 + 2)) = ''20002''"
    "dateToString E_ok (Date_now E_ok (tick io0 + 3)) = ''20003''"
    by (simp_all add: E_ok_def io0_def ms_string_def dec.simps digit_char_def)
  have i: "obs_id (observation (memoryCount alice) + 1) = ''obs_1''"
    by (simp add: alice_def new_Agent_def obs_id_def dec.simps digit_char_def)
  from r have "createdAt (base (last [Observation
      \<lparr>id_m = obs_id (observation (memoryCount alice) + 1),
       createdAt = dateToString E_ok (Date_now E_ok (tick io0 + 2)),
       description = ''saw a fire'',
       importance = projr (getImportanceScore E_ok (tick io0) (engine alice) ''saw a fire''),
       latestAccess = dateToString E_ok (Date_now E_ok (tick io0 + 3)),
       embedding = projr (getEmbedding E_ok (Suc (tick io0)) (engine alice) ''saw a fire'')\<rparr>]))
     = ''20002''"
    using c by simp
  then show ?thesis using run_fire m c i by (intro conjI) simp_all
qed

text \<open>
  The claim as stated fails: with a clock that advances between the two readings, a
  successful call stores a memory whose \<open>createdAt\<close> and \<open>latestAccess\<close> differ.
\<close>

theorem observe_stamps_differ:
  "fst (observe E_ok ''saw a fire'' alice io0) = Inr ()
   \<and> createdAt (base (last (memoryStream (fst (snd (observe E_ok ''saw a fire'' alice io0))))))
       = ''20002''
   \<and> latestAccess (base (last (memoryStream (fst (snd (observe E_ok ''saw a fire'' alice io0))))))
       = ''20003''
   \<and> createdAt (base (last (memoryStream (fst (snd (observe E_ok ''saw a fire'' alice io0))))))
       \<noteq> latestAccess
           (base (last (memoryStream (fst (snd (observe E_ok ''saw a fire'' alice io0))))))"
  unfolding run_fire by simp

section \<open>Properties of the interaction service\<close>

subsection \<open>canInteract\<close>

text \<open>
  Comparing the distance with a threshold that is not negative is comparing the squares;
  this is how the runs below decide \<open>canInteract\<close> at their integer coordinates.
\<close>

lemma canInteract_sq:
  "0 \<le> proximityThreshold S \<Longrightarrow>
   canInteract S a b \<longleftrightarrow>
     (pos_x a - pos_x b)\<^sup>2 + (pos_y a - pos_y b)\<^sup>2 \<le> (proximityThreshold S)\<^sup>2"
  unfolding canInteract_def Let_def
  by (metis real_sqrt_le_iff real_sqrt_abs abs_of_nonneg)

subsection \<open>Reading the service\<close>

lemma slice_0:
  "slice xs 0 n = take (if n < 0 then nat (int (length xs) + n) else nat n) xs"
  by (auto simp: slice_def Let_def min_def max_def)

lemma sort_key_descending:
  "sorted_wrt (\<lambda>a b. timestamp b \<le> timestamp a) (sort_key (\<lambda>i. - timestamp i) xs)"
proof -
  have "sorted (map (\<lambda>i. - timestamp i) (sort_key (\<lambda>i. - timestamp i) xs))"
    by (rule sorted_sort_key)
  then show ?thesis by (simp add: sorted_map)
qed

lemma getRecentInteractions_sorted:
  "sorted_wrt (\<lambda>a b. timestamp b \<le> timestamp a) (fst (getRecentInteractions limit S))"
  by (simp add: getRecentInteractions_def Let_def slice_0 sorted_wrt_take sort_key_descending)

lemma getRecentInteractions_length:
  "length (fst (getRecentInteractions (Some (int n)) S)) \<le> n"
  by (simp add: getRecentInteractions_def Let_def slice_0)

lemma getRecentInteractions_subset:
  "set (fst (getRecentInteractions limit S)) \<subseteq> set (interactions S)"
proof -
  have "set (take k (sort_key (\<lambda>i. - timestamp i) (interactions S))) \<subseteq> set (interactions S)"
    for k
    using set_take_subset[of k "sort_key (\<lambda>i. - timestamp i) (interactions S)"] by simp
  then show ?thesis by (simp add: getRecentInteractions_def Let_def slice_0)
qed

text \<open>
  C10. For every service state and every limit \<open>n\<close>, a number of interactions,
  \<open>getRecentInteractions(n)\<close> returns at most \<open>n\<close> interactions, and at most 10 when the limit
  is omitted; the result holds recorded interactions only and is sorted by timestamp in
  non-increasing order, the most recent first (this much for whatever is passed as the
  limit); for an agent id with no recorded memories \<open>getAgentMemories\<close> returns the empty
  list.
\<close>

theorem getRecentInteractions_bounded_sorted:
  "length (fst (getRecentInteractions (Some (int n)) S)) \<le> n
   \<and> length (fst (getRecentInteractions None S)) \<le> 10
   \<and> sorted_wrt (\<lambda>a b. timestamp b \<le> timestamp a) (fst (getRecentInteractions limit S))
   \<and> set (fst (getRecentInteractions limit S)) \<subseteq> set (interactions S)
   \<and> (memories S aid = None \<longrightarrow> getAgentMemories S aid = [])"
proof -
  have "length (fst (getRecentInteractions None S)) \<le> 10"
    by (simp add: getRecentInteractions_def Let_def slice_0)
  then show ?thesis
    using getRecentInteractions_length[of n S] getRecentInteractions_sorted[of limit S]
      getRecentInteractions_subset[of limit S]
    by (simp add: getAgentMemories_def)
qed

theorem getRecentInteractions_bounded_sorted_witness:
  "map timestamp (interactions S3) = [20002, 20050, 20020]
   \<and> map timestamp (fst (getRecentInteractions (Some 2) S3)) = [20050, 20020]
   \<and> length (fst (getRecentInteractions (Some 2) S3)) \<le> 2
   \<and> map timestamp (fst (getRecentInteractions None S3)) = [20050, 20020, 20002]
   \<and> memories S3 ''carol'' = None
   \<and> getAgentMemories S3 ''carol'' = []"
proof -
  have i: "map timestamp (interactions S3) = [20002, 20050, 20020]"
    by (simp add: S3_def new_InteractionService_def)
  have r: "map timestamp (fst (getRecentInteractions (Some 2) S3)) = [20050, 20020]"
    by (simp add: getRecentInteractions_def S3_def new_InteractionService_def slice_def)
  have d: "map timestamp (fst (getRecentInteractions None S3)) = [20050, 20020, 20002]"
    by (simp add: getRecentInteractions_def S3_def new_InteractionService_def slice_def
        Let_def)
  have m: "memories S3 ''carol'' = None"
    by (simp add: S3_def new_InteractionService_def)
  from getRecentInteractions_bounded_sorted[of 2 S3 "Some 2" "''carol''"] i r d m
  show ?thesis by simp
qed

subsection \<open>What one createInteraction call does\<close>

lemma recordMemory_frame:
  "agents (recordMemory E aid c k src w) = agents w"
  "characters (recordMemory E aid c k src w) = characters w"
  "scene_characters (recordMemory E aid c k src w) = scene_characters w"
  "interactions (interactionService (recordMemory E aid c k src w))
     = interactions (interactionService w)"
  "proximityThreshold (interactionService (recordMemory E aid c k src w))
     = proximityThreshold (interactionService w)"
  "calls (outside (recordMemory E aid c k src w)) = calls (outside w)"
  "tick (outside (recordMemory E aid c k src w)) = Suc (tick (outside w))"
  by (simp_all add: recordMemory_def now_def Let_def)

lemma record_interaction_frame:
  assumes "record_interaction E i t ty c w = (x, w3)"
  shows "x = \<lparr>id_i = slice (toString36 E (Math_random E (tick (outside w)))) 2 9,
               initiatorId = id_a (agents w i), targetId = id_a (agents w t),
               type_i = ty, content = c,
               timestamp = Date_now E (Suc (tick (outside w)))\<rparr>"
    and "interactions (interactionService w3) = interactions (interactionService w) @ [x]"
    and "agents w3 = agents w"
    and "characters w3 = characters w"
    and "scene_characters w3 = scene_characters w"
    and "proximityThreshold (interactionService w3) = proximityThreshold (interactionService w)"
    and "calls (outside w3) = calls (outside w)"
    and "tick (outside w3) = tick (outside w) + 4"
  using assms
  by (auto simp: record_interaction_def Let_def random_def now_def recordMemory_frame
      split: prod.splits)

lemma observe_calls:
  assumes "observe E d a s = (r, a', s')"
  shows "\<exists>cs. calls s' = calls s @ cs \<and> (\<forall>c \<in> set cs. \<not> is_reply c)
           \<and> (\<forall>e. r = Inl e \<longrightarrow> (\<exists>c \<in> set cs. thrown c = Some e))
           \<and> ((\<forall>c \<in> set cs. thrown c = None) \<longrightarrow> r = Inr ())"
  using assms
  by (auto simp: observe_def call_getImportanceScore_def call_getEmbedding_def now_def Let_def
      split: sum.splits prod.splits)

lemma observe_at_cases:
  assumes "observe_at E r d w = (res, w')"
  obtains (fails) e where "res = Inl e" "agents w' = agents w"
  | (succeeds) b where "res = Inr ()"
      "agents w' = (agents w)(r := (agents w r)
          \<lparr>memoryStream := memoryStream (agents w r) @ [Observation b],
           memoryCount := (memoryCount (agents w r))
              \<lparr>observation := Suc (observation (memoryCount (agents w r)))\<rparr>\<rparr>)"
      "description b = d"
proof (cases rule: observe_step[of E d "agents w r" "outside w"])
  case (fails e)
  with assms have "res = Inl e" "agents w' = agents w"
    by (auto simp: observe_at_def split: prod.splits)
  then show ?thesis by (rule that(1))
next
  case (succeeds b)
  with assms show ?thesis
    by (intro that(2)[of b]) (auto simp: observe_at_def split: prod.splits)
qed

lemma observe_at_frame:
  assumes "observe_at E r d w = (res, w')"
  shows "interactionService w' = interactionService w"
    and "characters w' = characters w"
    and "scene_characters w' = scene_characters w"
    and "\<exists>cs. calls (outside w') = calls (outside w) @ cs \<and> (\<forall>c \<in> set cs. \<not> is_reply c)
           \<and> (\<forall>e. res = Inl e \<longrightarrow> (\<exists>c \<in> set cs. thrown c = Some e))
           \<and> ((\<forall>c \<in> set cs. thrown c = None) \<longrightarrow> res = Inr ())"
proof -
  obtain r0 a' s' where o: "observe E d (agents w r) (outside w) = (r0, a', s')"
    by (cases "observe E d (agents w r) (outside w)")
  with assms have eq: "res = r0" "w' = w\<lparr>agents := (agents w)(r := a'), outside := s'\<rparr>"
    by (auto simp: observe_at_def)
  then show "interactionService w' = interactionService w" "characters w' = characters w"
    "scene_characters w' = scene_characters w" by simp_all
  from observe_calls[OF o] eq
  show "\<exists>cs. calls (outside w') = calls (outside w) @ cs \<and> (\<forall>c \<in> set cs. \<not> is_reply c)
           \<and> (\<forall>e. res = Inl e \<longrightarrow> (\<exists>c \<in> set cs. thrown c = Some e))
           \<and> ((\<forall>c \<in> set cs. thrown c = None) \<longrightarrow> res = Inr ())"
    by simp
qed

lemma createInteraction_split:
  assumes "createInteraction E i t ty w = (res, w')"
  obtains c s1 x w3 r1 w4 where
    "interaction_content E i t ty w = (c, s1)"
    "record_interaction E i t ty c (w\<lparr>outside := s1\<rparr>) = (x, w3)"
    "observe_at E i c w3 = (r1, w4)"
    "(\<exists>e. r1 = Inl e \<and> res = Inl e \<and> w' = w4)
     \<or> (r1 = Inr () \<and>
         (\<exists>r2. observe_at E t c w4 = (r2, w') \<and>
            ((\<exists>e. r2 = Inl e \<and> res = Inl e) \<or> (r2 = Inr () \<and> res = Inr (Some x)))))"
proof -
  obtain c s1 where a: "interaction_content E i t ty w = (c, s1)"
    by (cases "interaction_content E i t ty w")
  obtain x w3 where b: "record_interaction E i t ty c (w\<lparr>outside := s1\<rparr>) = (x, w3)"
    by (cases "record_interaction E i t ty c (w\<lparr>outside := s1\<rparr>)")
  obtain r1 w4 where c: "observe_at E i c w3 = (r1, w4)"
    by (cases "observe_at E i c w3")
  obtain r2 w5 where d: "observe_at E t c w4 = (r2, w5)"
    by (cases "observe_at E t c w4")
  from assms a b c d have
    "(\<exists>e. r1 = Inl e \<and> res = Inl e \<and> w' = w4)
     \<or> (r1 = Inr () \<and>
         (\<exists>r2. observe_at E t c w4 = (r2, w') \<and>
            ((\<exists>e. r2 = Inl e \<and> res = Inl e) \<or> (r2 = Inr () \<and> res = Inr (Some x)))))"
    by (auto simp: createInteraction_def split: sum.splits)
  with a b c show ?thesis by (rule that)
qed

lemma createInteraction_record:
  assumes "createInteraction E i t ty w = (res, w')"
  shows "\<exists>x. content x = fst (interaction_content E i t ty w)
           \<and> initiatorId x = id_a (agents w i) \<and> targetId x = id_a (agents w t)
           \<and> type_i x = ty
           \<and> interactions (interactionService w') = interactions (interactionService w) @ [x]
           \<and> res \<noteq> Inr None \<and> (\<forall>y. res = Inr (Some y) \<longrightarrow> y = x)"
    and "proximityThreshold (interactionService w') = proximityThreshold (interactionService w)"
    and "characters w' = characters w"
    and "scene_characters w' = scene_characters w"
proof -
  from assms obtain c s1 x w3 r1 w4 where
    a: "interaction_content E i t ty w = (c, s1)"
    and b: "record_interaction E i t ty c (w\<lparr>outside := s1\<rparr>) = (x, w3)"
    and c: "observe_at E i c w3 = (r1, w4)"
    and d: "(\<exists>e. r1 = Inl e \<and> res = Inl e \<and> w' = w4)
     \<or> (r1 = Inr () \<and>
         (\<exists>r2. observe_at E t c w4 = (r2, w') \<and>
            ((\<exists>e. r2 = Inl e \<and> res = Inl e) \<or> (r2 = Inr () \<and> res = Inr (Some x)))))"
    by (rule createInteraction_split)
  note rf = record_interaction_frame[OF b]
  note f1 = observe_at_frame(1-3)[OF c]
  have x: "content x = c" "initiatorId x = id_a (agents w i)"
    "targetId x = id_a (agents w t)" "type_i x = ty"
    using rf(1) by simp_all
  have s4: "interactionService w4 = interactionService w3" 
    "characters w4 = characters w" "scene_characters w4 = scene_characters w"
    using f1 rf by simp_all
  have s': "interactionService w' = interactionService w3 \<and> characters w' = characters w
      \<and> scene_characters w' = scene_characters w"
    using d s4 by (auto dest: observe_at_frame(1-3))
  have res: "res \<noteq> Inr None" "\<forall>y. res = Inr (Some y) \<longrightarrow> y = x"
    using d by auto
  show "\<exists>x. content x = fst (interaction_content E i t ty w)
           \<and> initiatorId x = id_a (agents w i) \<and> targetId x = id_a (agents w t)
           \<and> type_i x = ty
           \<and> interactions (interactionService w') = interactions (interactionService w) @ [x]
           \<and> res \<noteq> Inr None \<and> (\<forall>y. res = Inr (Some y) \<longrightarrow> y = x)"
    using x a s' rf(2) res by (intro exI[of _ x]) simp
  show "proximityThreshold (interactionService w') = proximityThreshold (interactionService w)"
    using s' rf(6) by simp
  show "characters w' = characters w" "scene_characters w' = scene_characters w"
    using s' by simp_all
qed

lemma createInteraction_agents:
  assumes "createInteraction E i t ty w = (res, w')" and "i \<noteq> t"
  shows "\<forall>r. r \<noteq> i \<and> r \<noteq> t \<longrightarrow> agents w' r = agents w r"
    and "\<forall>y. res = Inr (Some y) \<longrightarrow>
           (\<exists>b1 b2. description b1 = content y \<and> description b2 = content y
              \<and> memoryStream (agents w' i) = memoryStream (agents w i) @ [Observation b1]
              \<and> memoryStream (agents w' t) = memoryStream (agents w t) @ [Observation b2])"
    and "\<forall>e. res = Inl e \<longrightarrow>
           agents w' t = agents w t
           \<and> (agents w' i = agents w i
               \<or> (\<exists>b1. description b1 = fst (interaction_content E i t ty w)
                     \<and> memoryStream (agents w' i)
                         = memoryStream (agents w i) @ [Observation b1]))"
proof -
  from assms(1) obtain c s1 x w3 r1 w4 where
    a: "interaction_content E i t ty w = (c, s1)"
    and b: "record_interaction E i t ty c (w\<lparr>outside := s1\<rparr>) = (x, w3)"
    and c: "observe_at E i c w3 = (r1, w4)"
    and d: "(\<exists>e. r1 = Inl e \<and> res = Inl e \<and> w' = w4)
     \<or> (r1 = Inr () \<and>
         (\<exists>r2. observe_at E t c w4 = (r2, w') \<and>
            ((\<exists>e. r2 = Inl e \<and> res = Inl e) \<or> (r2 = Inr () \<and> res = Inr (Some x)))))"
    by (rule createInteraction_split)
  note rf = record_interaction_frame[OF b]
  have xc: "content x = c" using rf(1) by simp
  have w3: "agents w3 = agents w" using rf(3) by simp
  have goal: "(\<forall>r. r \<noteq> i \<and> r \<noteq> t \<longrightarrow> agents w' r = agents w r)
    \<and> (\<forall>y. res = Inr (Some y) \<longrightarrow>
           (\<exists>b1 b2. description b1 = content y \<and> description b2 = content y
              \<and> memoryStream (agents w' i) = memoryStream (agents w i) @ [Observation b1]
              \<and> memoryStream (agents w' t) = memoryStream (agents w t) @ [Observation b2]))
    \<and> (\<forall>e. res = Inl e \<longrightarrow>
           agents w' t = agents w t
           \<and> (agents w' i = agents w i
               \<or> (\<exists>b1. description b1 = c
                     \<and> memoryStream (agents w' i)
                         = memoryStream (agents w i) @ [Observation b1])))"
    using c
  proof (cases rule: observe_at_cases)
    case (fails e)
    with d have "res = Inl e" "w' = w4" by auto
    with fails w3 show ?thesis by simp
  next
    case (succeeds b1)
    with d obtain r2 where o2: "observe_at E t c w4 = (r2, w')"
      and r2: "(\<exists>e. r2 = Inl e \<and> res = Inl e) \<or> (r2 = Inr () \<and> res = Inr (Some x))"
      by auto
    have i4: "memoryStream (agents w4 i) = memoryStream (agents w i) @ [Observation b1]"
      and t4: "agents w4 t = agents w t"
      and o4: "\<forall>r. r \<noteq> i \<and> r \<noteq> t \<longrightarrow> agents w4 r = agents w r"
      using succeeds(2) w3 assms(2) by simp_all
    from o2 show ?thesis
    proof (cases rule: observe_at_cases)
      case (fails e)
      with r2 have "res = Inl e" by auto
      with fails i4 t4 o4 succeeds(3) show ?thesis by auto
    next
      case (succeeds b2)
      with r2 have res: "res = Inr (Some x)" by auto
      have "memoryStream (agents w' t) = memoryStream (agents w t) @ [Observation b2]"
        "memoryStream (agents w' i) = memoryStream (agents w i) @ [Observation b1]"
        "\<forall>r. r \<noteq> i \<and> r \<noteq> t \<longrightarrow> agents w' r = agents w r"
        using succeeds(2) i4 t4 o4 assms(2) by simp_all
      with res xc \<open>description b1 = c\<close> succeeds(3) show ?thesis by auto
    qed
  qed
  from goal a show "\<forall>r. r \<noteq> i \<and> r \<noteq> t \<longrightarrow> agents w' r = agents w r"
    and "\<forall>y. res = Inr (Some y) \<longrightarrow>
           (\<exists>b1 b2. description b1 = content y \<and> description b2 = content y
              \<and> memoryStream (agents w' i) = memoryStream (agents w i) @ [Observation b1]
              \<and> memoryStream (agents w' t) = memoryStream (agents w t) @ [Observation b2])"
    and "\<forall>e. res = Inl e \<longrightarrow>
           agents w' t = agents w t
           \<and> (agents w' i = agents w i
               \<or> (\<exists>b1. description b1 = fst (interaction_content E i t ty w)
                     \<and> memoryStream (agents w' i)
                         = memoryStream (agents w i) @ [Observation b1]))"
    by simp_all
qed

lemma filter_recent_eq:
  "filter_recent E ms s = (recent_facts E (tick s) ms, s\<lparr>tick := tick s + length ms\<rparr>)"
proof (induction ms arbitrary: s)
  case Nil
  show ?case by (simp add: recent_facts_def)
next
  case (Cons m ms)
  have z: "zip (m # ms) [tick s ..< tick s + length (m # ms)]
      = (m, tick s) # zip ms [Suc (tick s) ..< Suc (tick s) + length ms]"
    using upt_conv_Cons[of "tick s" "tick s + length (m # ms)"] by (simp del: upt_Suc)
  show ?case
    unfolding recent_facts_def z
    by (simp add: now_def Cons.IH recent_facts_def del: upt_Suc)
qed

lemma content_observation:
  "interaction_content E i t I_observation w
     = (observation_content (agents w i) (agents w t), outside w)"
  by (simp add: interaction_content_def)

lemma content_conversation:
  "interaction_content E i t I_conversation w =
     (response_or (reply E (tick (outside w)) (engine (agents w i))
          (conversation_message (agents w t)) (agents w i)
          (conversation_context (agents w i) (agents w t)))
        ''Failed to generate conversation'',
      (outside w)\<lparr>tick := Suc (tick (outside w)),
        calls := calls (outside w) @
          [Reply (engine (agents w i)) (conversation_message (agents w t)) (agents w i)
             (conversation_context (agents w i) (agents w t))
             (reply E (tick (outside w)) (engine (agents w i))
                (conversation_message (agents w t)) (agents w i)
                (conversation_context (agents w i) (agents w t)))]\<rparr>)"
  by (simp add: interaction_content_def generateConversation_def call_reply_def Let_def)

lemma content_rumor:
  "interaction_content E i t I_rumor w =
     (let known = getAgentMemories (interactionService w) (id_a (agents w i));
          facts = recent_facts E (tick (outside w)) known;
          r = reply E (tick (outside w) + length known) (engine (agents w i)) rumor_message
                (agents w i) (rumor_context (agents w i) facts)
      in (response_or r ''Failed to generate rumor'',
          (outside w)\<lparr>tick := Suc (tick (outside w) + length known),
            calls := calls (outside w) @
              [Reply (engine (agents w i)) rumor_message (agents w i)
                 (rumor_context (agents w i) facts) r]\<rparr>))"
  by (simp add: interaction_content_def generateRumor_def call_reply_def filter_recent_eq
      getAgentMemories_def Let_def)

lemma createInteraction_calls:
  assumes "createInteraction E i t ty w = (res, w')"
  shows "\<exists>cs. calls (outside w') = calls (snd (interaction_content E i t ty w)) @ cs
           \<and> (\<forall>c \<in> set cs. \<not> is_reply c)
           \<and> (\<forall>e. res = Inl e \<longrightarrow> (\<exists>c \<in> set cs. thrown c = Some e))
           \<and> ((\<forall>c \<in> set cs. thrown c = None) \<longrightarrow> (\<exists>y. res = Inr (Some y)))"
proof -
  from assms obtain c s1 x w3 r1 w4 where
    a: "interaction_content E i t ty w = (c, s1)"
    and b: "record_interaction E i t ty c (w\<lparr>outside := s1\<rparr>) = (x, w3)"
    and c: "observe_at E i c w3 = (r1, w4)"
    and d: "(\<exists>e. r1 = Inl e \<and> res = Inl e \<and> w' = w4)
     \<or> (r1 = Inr () \<and>
         (\<exists>r2. observe_at E t c w4 = (r2, w') \<and>
            ((\<exists>e. r2 = Inl e \<and> res = Inl e) \<or> (r2 = Inr () \<and> res = Inr (Some x)))))"
    by (rule createInteraction_split)
  have c3: "calls (outside w3) = calls s1"
    using record_interaction_frame(7)[OF b] by simp
  from observe_at_frame(4)[OF c] obtain cs1 where
    c4: "calls (outside w4) = calls (outside w3) @ cs1"
    and n1: "\<forall>c \<in> set cs1. \<not> is_reply c"
    and e1: "\<forall>e. r1 = Inl e \<longrightarrow> (\<exists>c \<in> set cs1. thrown c = Some e)"
    and k1: "(\<forall>c \<in> set cs1. thrown c = None) \<longrightarrow> r1 = Inr ()"
    by blast
  from d show ?thesis
  proof
    assume "\<exists>e. r1 = Inl e \<and> res = Inl e \<and> w' = w4"
    then obtain e where r: "r1 = Inl e" "res = Inl e" "w' = w4" by blast
    from r k1 have "\<not> (\<forall>c \<in> set cs1. thrown c = None)" by auto
    with r c3 c4 n1 e1 a show ?thesis by (intro exI[of _ cs1]) auto
  next
    assume "r1 = Inr () \<and>
         (\<exists>r2. observe_at E t c w4 = (r2, w') \<and>
            ((\<exists>e. r2 = Inl e \<and> res = Inl e) \<or> (r2 = Inr () \<and> res = Inr (Some x))))"
    then obtain r2 where r1: "r1 = Inr ()" and o2: "observe_at E t c w4 = (r2, w')"
      and r2: "(\<exists>e. r2 = Inl e \<and> res = Inl e) \<or> (r2 = Inr () \<and> res = Inr (Some x))"
      by blast
    from observe_at_frame(4)[OF o2] obtain cs2 where
      c5: "calls (outside w') = calls (outside w4) @ cs2"
      and n2: "\<forall>c \<in> set cs2. \<not> is_reply c"
      and e2: "\<forall>e. r2 = Inl e \<longrightarrow> (\<exists>c \<in> set cs2. thrown c = Some e)"
      and k2: "(\<forall>c \<in> set cs2. thrown c = None) \<longrightarrow> r2 = Inr ()"
      by blast
    have 1: "calls (outside w') = calls (snd (interaction_content E i t ty w)) @ (cs1 @ cs2)"
      using a c3 c4 c5 by simp
    have 2: "\<forall>c \<in> set (cs1 @ cs2). \<not> is_reply c" using n1 n2 by auto
    have 3: "\<forall>e. res = Inl e \<longrightarrow> (\<exists>c \<in> set (cs1 @ cs2). thrown c = Some e)"
      using r2 e2 by auto
    have 4: "(\<forall>c \<in> set (cs1 @ cs2). thrown c = None) \<longrightarrow> (\<exists>y. res = Inr (Some y))"
      using r2 k2 by auto
    from 1 2 3 4 show ?thesis by blast
  qed
qed

lemma io_eq: "tick s = k \<Longrightarrow> calls s = cs \<Longrightarrow> s = \<lparr>tick = k, calls = cs\<rparr>"
  by (cases s) simp

lemma observe_at_eq:
  "observe E d (agents w r) (outside w) = (res, a', s') \<Longrightarrow>
   observe_at E r d w = (res, w\<lparr>agents := (agents w)(r := a'), outside := s'\<rparr>)"
  by (simp add: observe_at_def)

lemma createInteraction_closed:
  assumes c: "interaction_content E i t ty w = (c, s1)"
    and o1: "observe E c (agents w i) \<lparr>tick = tick s1 + 4, calls = calls s1\<rparr> = (r1, a1, s4)"
    and o2: "observe E c (if t = i then a1 else agents w t) s4 = (r2, a2, s5)"
    and x: "x = \<lparr>id_i = slice (toString36 E (Math_random E (tick s1))) 2 9,
                 initiatorId = id_a (agents w i), targetId = id_a (agents w t),
                 type_i = ty, content = c, timestamp = Date_now E (Suc (tick s1))\<rparr>"
  shows "fst (createInteraction E i t ty w) =
           (case r1 of Inl e \<Rightarrow> Inl e
            | Inr u \<Rightarrow> (case r2 of Inl e \<Rightarrow> Inl e | Inr u' \<Rightarrow> Inr (Some x)))"
    and "agents (snd (createInteraction E i t ty w)) =
           (case r1 of Inl e \<Rightarrow> agents w | Inr u \<Rightarrow> (agents w)(i := a1, t := a2))"
    and "outside (snd (createInteraction E i t ty w)) =
           (case r1 of Inl e \<Rightarrow> s4 | Inr u \<Rightarrow> s5)"
    and "interactions (interactionService (snd (createInteraction E i t ty w))) =
           interactions (interactionService w) @ [x]"
proof -
  obtain x' w3 where b: "record_interaction E i t ty c (w\<lparr>outside := s1\<rparr>) = (x', w3)"
    by (cases "record_interaction E i t ty c (w\<lparr>outside := s1\<rparr>)")
  note rf = record_interaction_frame[OF b]
  have xx: "x' = x" using rf(1) x by simp
  have s3: "outside w3 = \<lparr>tick = tick s1 + 4, calls = calls s1\<rparr>"
    using rf(7,8) by (intro io_eq) simp_all
  have a3: "agents w3 = agents w" using rf(3) by simp
  have i3: "interactions (interactionService w3) = interactions (interactionService w) @ [x]"
    using rf(2) xx by simp
  have oa1: "observe_at E i c w3 = (r1, w3\<lparr>agents := (agents w)(i := a1), outside := s4\<rparr>)"
    using observe_at_eq[of E c w3 i r1 a1 s4] o1 s3 a3 by simp
  let ?w4 = "w3\<lparr>agents := (agents w)(i := a1), outside := s4\<rparr>"
  have "agents ?w4 t = (if t = i then a1 else agents w t)" by simp
  then have oa2: "observe_at E t c ?w4 =
      (r2, ?w4\<lparr>agents := (agents ?w4)(t := a2), outside := s5\<rparr>)"
    using observe_at_eq[of E c ?w4 t r2 a2 s5] o2 by simp
  have run: "createInteraction E i t ty w =
      (case r1 of Inl e \<Rightarrow> (Inl e, ?w4)
       | Inr u \<Rightarrow> (case r2 of Inl e \<Rightarrow> Inl e | Inr u' \<Rightarrow> Inr (Some x),
                   ?w4\<lparr>agents := (agents ?w4)(t := a2), outside := s5\<rparr>))"
    by (simp add: createInteraction_def c b oa1 oa2 xx split: sum.splits)
  show "fst (createInteraction E i t ty w) =
           (case r1 of Inl e \<Rightarrow> Inl e
            | Inr u \<Rightarrow> (case r2 of Inl e \<Rightarrow> Inl e | Inr u' \<Rightarrow> Inr (Some x)))"
    by (simp add: run split: sum.splits)
  have "r1 = Inl e \<Longrightarrow> a1 = agents w i" for e
    using observe_Inl[of E c "agents w i" "\<lparr>tick = tick s1 + 4, calls = calls s1\<rparr>" e] o1
    by simp
  then show "agents (snd (createInteraction E i t ty w)) =
           (case r1 of Inl e \<Rightarrow> agents w | Inr u \<Rightarrow> (agents w)(i := a1, t := a2))"
    by (auto simp: run split: sum.splits)
  show "outside (snd (createInteraction E i t ty w)) =
           (case r1 of Inl e \<Rightarrow> s4 | Inr u \<Rightarrow> s5)"
    by (simp add: run split: sum.splits)
  show "interactions (interactionService (snd (createInteraction E i t ty w))) =
           interactions (interactionService w) @ [x]"
    by (simp add: run i3 split: sum.splits)
qed

subsection \<open>The claims about createInteraction\<close>

lemma new_calls_append:
  "calls (outside w') = calls (outside w) @ cs \<Longrightarrow> new_calls w w' = cs"
  by (simp add: new_calls_def)

lemma effects_without_reply:
  "now (E\<lparr>reply := g\<rparr>) = now E"
  "random (E\<lparr>reply := g\<rparr>) = random E"
  "call_getImportanceScore (E\<lparr>reply := g\<rparr>) = call_getImportanceScore E"
  "call_getEmbedding (E\<lparr>reply := g\<rparr>) = call_getEmbedding E"
  "dateToString (E\<lparr>reply := g\<rparr>) = dateToString E"
  "toString36 (E\<lparr>reply := g\<rparr>) = toString36 E"
  by (simp_all add: fun_eq_iff now_def random_def call_getImportanceScore_def
      call_getEmbedding_def)

lemma observe_without_reply:
  "observe (E\<lparr>reply := g\<rparr>) = observe E"
  unfolding observe_def effects_without_reply ..

lemma recordMemory_without_reply:
  "recordMemory (E\<lparr>reply := g\<rparr>) = recordMemory E"
  unfolding recordMemory_def effects_without_reply ..

lemma record_interaction_without_reply:
  "record_interaction (E\<lparr>reply := g\<rparr>) = record_interaction E"
  unfolding record_interaction_def effects_without_reply recordMemory_without_reply ..

lemma createInteraction_observation_without_reply:
  "createInteraction (E\<lparr>reply := g\<rparr>) i t I_observation w
     = createInteraction E i t I_observation w"
  unfolding createInteraction_def observe_at_def observe_without_reply
    record_interaction_without_reply interaction_content_def
  by simp

lemma createInteraction_same_agent:
  assumes "createInteraction E i i ty w = (res, w')"
  shows "\<forall>y. res = Inr (Some y) \<longrightarrow>
           (\<exists>b1 b2. description b1 = content y \<and> description b2 = content y
              \<and> memoryStream (agents w' i)
                  = memoryStream (agents w i) @ [Observation b1, Observation b2])"
    and "\<forall>e. res = Inl e \<longrightarrow>
           (memoryStream (agents w' i) = memoryStream (agents w i)
            \<or> (\<exists>b1. description b1 = fst (interaction_content E i i ty w)
                  \<and> memoryStream (agents w' i)
                      = memoryStream (agents w i) @ [Observation b1]))"
proof -
  from assms obtain c s1 x w3 r1 w4 where
    a: "interaction_content E i i ty w = (c, s1)"
    and b: "record_interaction E i i ty c (w\<lparr>outside := s1\<rparr>) = (x, w3)"
    and c: "observe_at E i c w3 = (r1, w4)"
    and d: "(\<exists>e. r1 = Inl e \<and> res = Inl e \<and> w' = w4)
     \<or> (r1 = Inr () \<and>
         (\<exists>r2. observe_at E i c w4 = (r2, w') \<and>
            ((\<exists>e. r2 = Inl e \<and> res = Inl e) \<or> (r2 = Inr () \<and> res = Inr (Some x)))))"
    by (rule createInteraction_split)
  note rf = record_interaction_frame[OF b]
  have xc: "content x = c" using rf(1) by simp
  have w3: "agents w3 = agents w" using rf(3) by simp
  have goal: "(\<forall>y. res = Inr (Some y) \<longrightarrow>
           (\<exists>b1 b2. description b1 = content y \<and> description b2 = content y
              \<and> memoryStream (agents w' i)
                  = memoryStream (agents w i) @ [Observation b1, Observation b2]))
    \<and> (\<forall>e. res = Inl e \<longrightarrow>
           (memoryStream (agents w' i) = memoryStream (agents w i)
            \<or> (\<exists>b1. description b1 = c
                  \<and> memoryStream (agents w' i)
                      = memoryStream (agents w i) @ [Observation b1])))"
    using c
  proof (cases rule: observe_at_cases)
    case (fails e)
    with d have "res = Inl e" "w' = w4" by auto
    with fails w3 show ?thesis by simp
  next
    case (succeeds b1)
    with d obtain r2 where o2: "observe_at E i c w4 = (r2, w')"
      and r2: "(\<exists>e. r2 = Inl e \<and> res = Inl e) \<or> (r2 = Inr () \<and> res = Inr (Some x))"
      by auto
    have i4: "memoryStream (agents w4 i) = memoryStream (agents w i) @ [Observation b1]"
      using succeeds(2) w3 by simp
    from o2 show ?thesis
    proof (cases rule: observe_at_cases)
      case (fails e)
      with r2 have "res = Inl e" by auto
      with fails i4 succeeds(3) show ?thesis by auto
    next
      case (succeeds b2)
      with r2 have res: "res = Inr (Some x)" by auto
      have "memoryStream (agents w' i)
          = memoryStream (agents w i) @ [Observation b1, Observation b2]"
        using succeeds(2) i4 by simp
      with res xc \<open>description b1 = c\<close> succeeds(3) show ?thesis by auto
    qed
  qed
  from goal a show "\<forall>y. res = Inr (Some y) \<longrightarrow>
           (\<exists>b1 b2. description b1 = content y \<and> description b2 = content y
              \<and> memoryStream (agents w' i)
                  = memoryStream (agents w i) @ [Observation b1, Observation b2])"
    and "\<forall>e. res = Inl e \<longrightarrow>
           (memoryStream (agents w' i) = memoryStream (agents w i)
            \<or> (\<exists>b1. description b1 = fst (interaction_content E i i ty w)
                  \<and> memoryStream (agents w' i)
                      = memoryStream (agents w i) @ [Observation b1]))"
    by simp_all
qed

text \<open>
  C1, as amended. For every \<open>createInteraction\<close> call: the service records one new
  interaction, and the call never returns none. When it returns an interaction, that is
  the recorded one, and exactly one memory has been appended to the initiator's stream and
  exactly one to the target's, each an observation described by the interaction's content
  (one stream gains both, one after the other, when initiator and target are the same
  agent object). Nothing is undone when an append fails: the call then fails with the
  exception, the interaction stays recorded, the target's stream is as it was, and the
  initiator's stream is as it was or has gained its one memory.
\<close>

theorem createInteraction_appends_to_both:
  assumes "createInteraction E i t ty w = (res, w')"
  shows "\<exists>x. interactions (interactionService w') = interactions (interactionService w) @ [x]
           \<and> initiatorId x = id_a (agents w i) \<and> targetId x = id_a (agents w t)
           \<and> type_i x = ty
           \<and> res \<noteq> Inr None
           \<and> (\<forall>y. res = Inr (Some y) \<longrightarrow>
                 y = x
                 \<and> (\<exists>b1 b2. description b1 = content y \<and> description b2 = content y
                      \<and> (if i = t
                          then memoryStream (agents w' i)
                                 = memoryStream (agents w i) @ [Observation b1, Observation b2]
                          else memoryStream (agents w' i)
                                 = memoryStream (agents w i) @ [Observation b1]
                               \<and> memoryStream (agents w' t)
                                 = memoryStream (agents w t) @ [Observation b2])))
           \<and> (\<forall>e. res = Inl e \<longrightarrow>
                 (i \<noteq> t \<longrightarrow> memoryStream (agents w' t) = memoryStream (agents w t))
                 \<and> (memoryStream (agents w' i) = memoryStream (agents w i)
                     \<or> (\<exists>b1. description b1 = content x
                           \<and> memoryStream (agents w' i)
                               = memoryStream (agents w i) @ [Observation b1])))"
proof -
  from createInteraction_record(1)[OF assms(1)] obtain x where
    x: "content x = fst (interaction_content E i t ty w)"
      "initiatorId x = id_a (agents w i)" "targetId x = id_a (agents w t)" "type_i x = ty"
      "interactions (interactionService w') = interactions (interactionService w) @ [x]"
      "res \<noteq> Inr None" "\<forall>y. res = Inr (Some y) \<longrightarrow> y = x"
    by blast
  have ok: "\<forall>y. res = Inr (Some y) \<longrightarrow>
                 y = x
                 \<and> (\<exists>b1 b2. description b1 = content y \<and> description b2 = content y
                      \<and> (if i = t
                          then memoryStream (agents w' i)
                                 = memoryStream (agents w i) @ [Observation b1, Observation b2]
                          else memoryStream (agents w' i)
                                 = memoryStream (agents w i) @ [Observation b1]
                               \<and> memoryStream (agents w' t)
                                 = memoryStream (agents w t) @ [Observation b2]))"
  proof (cases "i = t")
    case True
    with createInteraction_same_agent(1)[of E i ty w res w'] assms x(7) show ?thesis
      by fastforce
  next
    case False
    with createInteraction_agents(2)[OF assms False] x(7) show ?thesis
      by fastforce
  qed
  have bad: "\<forall>e. res = Inl e \<longrightarrow>
                 (i \<noteq> t \<longrightarrow> memoryStream (agents w' t) = memoryStream (agents w t))
                 \<and> (memoryStream (agents w' i) = memoryStream (agents w i)
                     \<or> (\<exists>b1. description b1 = content x
                           \<and> memoryStream (agents w' i)
                               = memoryStream (agents w i) @ [Observation b1]))"
  proof (cases "i = t")
    case True
    with createInteraction_same_agent(2)[of E i ty w res w'] assms x(1) show ?thesis
      by fastforce
  next
    case False
    with createInteraction_agents(3)[OF assms False] x(1) show ?thesis
      by fastforce
  qed
  from x(2-6) ok bad show ?thesis by blast
qed

text \<open>
  C9. For every \<open>createInteraction\<close> call of kind observation, the content of the
  interaction that is recorded (and returned, when the call returns) is the initiator's
  name, \<open>observed\<close>, the target's name and the target's current goal (\<open>doing something\<close>
  when the goal is empty); none of the collaborator calls made is a text-generation
  request, and the call does the same whatever the text-generation collaborator would
  answer.
\<close>

theorem observation_content_is_local:
  assumes "createInteraction E i t I_observation w = (res, w')"
  shows "(\<exists>x. interactions (interactionService w')
                = interactions (interactionService w) @ [x]
             \<and> (\<forall>y. res = Inr (Some y) \<longrightarrow> y = x)
             \<and> content x =
                 name (agents w i) @ '' observed '' @ name (agents w t) @ '' '' @
                 (if currentGoal (personality (agents w t)) = [] then ''doing something''
                  else currentGoal (personality (agents w t))))
       \<and> (\<forall>c \<in> set (new_calls w w'). \<not> is_reply c)
       \<and> createInteraction (E\<lparr>reply := g\<rparr>) i t I_observation w = (res, w')"
proof -
  from createInteraction_record(1)[OF assms] obtain x where
    x: "content x = fst (interaction_content E i t I_observation w)"
      "interactions (interactionService w') = interactions (interactionService w) @ [x]"
      "\<forall>y. res = Inr (Some y) \<longrightarrow> y = x"
    by blast
  have 1: "content x =
                 name (agents w i) @ '' observed '' @ name (agents w t) @ '' '' @
                 (if currentGoal (personality (agents w t)) = [] then ''doing something''
                  else currentGoal (personality (agents w t)))"
    using x(1) by (simp add: content_observation observation_content_def)
  from createInteraction_calls[OF assms] obtain cs where
    "calls (outside w') = calls (outside w) @ cs" "\<forall>c \<in> set cs. \<not> is_reply c"
    by (auto simp: content_observation)
  then have 2: "\<forall>c \<in> set (new_calls w w'). \<not> is_reply c"
    by (simp add: new_calls_append)
  have 3: "createInteraction (E\<lparr>reply := g\<rparr>) i t I_observation w = (res, w')"
    using assms by (simp add: createInteraction_observation_without_reply)
  from x(2,3) 1 2 3 show ?thesis by blast
qed

lemma recent_facts_frozen_clock:
  assumes "\<forall>k. k0 \<le> k \<and> k < k0 + length known \<longrightarrow> Date_now E k = T"
  shows "recent_facts E k0 known = filter (\<lambda>m. T - 24 * 60 * 60 * 1000 < timestamp_s m) known"
proof -
  let ?zs = "zip known [k0 ..< k0 + length known]"
  have "filter (\<lambda>(m, k). Date_now E k - 24 * 60 * 60 * 1000 < timestamp_s m) ?zs
      = filter (\<lambda>p. T - 24 * 60 * 60 * 1000 < timestamp_s (fst p)) ?zs"
  proof (rule filter_cong[OF refl])
    fix p assume a: "p \<in> set ?zs"
    obtain m k where p: "p = (m, k)" by (cases p)
    from a p have "k \<in> set [k0 ..< k0 + length known]"
      by (auto dest: set_zip_rightD)
    with assms have "Date_now E k = T" by simp
    with p show "(case p of (m, k) \<Rightarrow> Date_now E k - 24 * 60 * 60 * 1000 < timestamp_s m)
        = (T - 24 * 60 * 60 * 1000 < timestamp_s (fst p))"
      by simp
  qed
  then have "recent_facts E k0 known
      = map fst (filter (\<lambda>p. T - 24 * 60 * 60 * 1000 < timestamp_s (fst p)) ?zs)"
    by (simp add: recent_facts_def)
  also have "\<dots> = filter (\<lambda>m. T - 24 * 60 * 60 * 1000 < timestamp_s m) (map fst ?zs)"
    by (simp only: filter_map comp_def)
  also have "map fst ?zs = known" by simp
  finally show ?thesis .
qed

lemma recent_facts_monotone_clock:
  assumes "\<forall>k. k0 \<le> k \<longrightarrow> Date_now E k0 \<le> Date_now E k"
    and "m \<in> set (recent_facts E k0 known)"
  shows "m \<in> set known \<and> Date_now E k0 - 24 * 60 * 60 * 1000 < timestamp_s m"
proof -
  from assms(2) obtain k where
    in_zip: "(m, k) \<in> set (zip known [k0 ..< k0 + length known])"
    and test: "Date_now E k - 24 * 60 * 60 * 1000 < timestamp_s m"
    by (auto simp: recent_facts_def)
  from in_zip have "m \<in> set known" and "k0 \<le> k"
    by (auto dest: set_zip_leftD set_zip_rightD)
  with assms(1) test show ?thesis by fastforce
qed

text \<open>
  C8, as amended. For every \<open>createInteraction\<close> call of kind rumor, the first
  collaborator call is the one text-generation request, and the facts in its context are
  \<open>recent_facts\<close>: the initiator's recorded memories, in order, whose timestamp is greater
  than the clock reading taken when that memory is tested, minus 24 hours. When the clock
  does not advance during the filtering these are exactly the memories of the last 24 hours
  before that reading; with a clock that does not fall behind the reading at the call,
  every supplied fact is a recorded memory of the initiator from the 24 hours before the
  call.
\<close>

theorem rumor_facts_supplied:
  assumes "createInteraction E i t I_rumor w = (res, w')"
  shows "(\<exists>r cs. new_calls w w' =
            Reply (engine (agents w i)) rumor_message (agents w i)
              (rumor_context (agents w i)
                 (recent_facts E (tick (outside w))
                    (getAgentMemories (interactionService w) (id_a (agents w i))))) r # cs
          \<and> (\<forall>c \<in> set cs. \<not> is_reply c))
       \<and> ((\<forall>k. tick (outside w) \<le> k
               \<and> k < tick (outside w)
                   + length (getAgentMemories (interactionService w) (id_a (agents w i)))
               \<longrightarrow> Date_now E k = T)
            \<longrightarrow> recent_facts E (tick (outside w))
                  (getAgentMemories (interactionService w) (id_a (agents w i)))
                = filter (\<lambda>m. T - 24 * 60 * 60 * 1000 < timestamp_s m)
                    (getAgentMemories (interactionService w) (id_a (agents w i))))
       \<and> ((\<forall>k. tick (outside w) \<le> k \<longrightarrow> Date_now E (tick (outside w)) \<le> Date_now E k)
            \<longrightarrow> (\<forall>m \<in> set (recent_facts E (tick (outside w))
                             (getAgentMemories (interactionService w) (id_a (agents w i)))).
                   m \<in> set (getAgentMemories (interactionService w) (id_a (agents w i)))
                   \<and> Date_now E (tick (outside w)) - 24 * 60 * 60 * 1000 < timestamp_s m))"
proof -
  let ?known = "getAgentMemories (interactionService w) (id_a (agents w i))"
  let ?facts = "recent_facts E (tick (outside w)) ?known"
  let ?r = "reply E (tick (outside w) + length ?known) (engine (agents w i)) rumor_message
              (agents w i) (rumor_context (agents w i) ?facts)"
  have s1: "calls (snd (interaction_content E i t I_rumor w)) =
      calls (outside w) @
        [Reply (engine (agents w i)) rumor_message (agents w i)
           (rumor_context (agents w i) ?facts) ?r]"
    by (simp add: content_rumor Let_def)
  from createInteraction_calls[OF assms] obtain cs where
    cs: "calls (outside w') = calls (snd (interaction_content E i t I_rumor w)) @ cs"
      "\<forall>c \<in> set cs. \<not> is_reply c"
    by blast
  have "new_calls w w' =
      Reply (engine (agents w i)) rumor_message (agents w i)
        (rumor_context (agents w i) ?facts) ?r # cs"
    using cs(1) s1 by (intro new_calls_append) simp
  with cs(2) have 1: "\<exists>r cs. new_calls w w' =
            Reply (engine (agents w i)) rumor_message (agents w i)
              (rumor_context (agents w i) ?facts) r # cs
          \<and> (\<forall>c \<in> set cs. \<not> is_reply c)"
    by blast
  show ?thesis
    using 1 recent_facts_frozen_clock[of "tick (outside w)" ?known E T]
      recent_facts_monotone_clock[of "tick (outside w)" E _ ?known]
    by blast
qed


section \<open>Concrete runs of createInteraction\<close>

lemma alice_fields:
  "engine alice = 0" "id_a alice = ''alice''" "name alice = ''Alice''"
  "memoryStream alice = []"
  "memoryCount alice = \<lparr>observation = 0, reflection = 0, plan = 0, conversation = 0\<rparr>"
  "currentGoal (personality alice) = ''watering the roses''"
  "background (personality alice) = ''a gardener''"
  "innateTendency (personality alice) = [''curious'', ''kind'']"
  by (simp_all add: alice_def new_Agent_def)

lemma bob_fields:
  "engine bob = 1" "id_a bob = ''bob''" "name bob = ''Bob''"
  "memoryStream bob = []"
  "memoryCount bob = \<lparr>observation = 0, reflection = 0, plan = 0, conversation = 0\<rparr>"
  "currentGoal (personality bob) = []"
  "background (personality bob) = ''a baker''"
  "innateTendency (personality bob) = [''calm'']"
  by (simp_all add: bob_def new_Agent_def)

lemma w0_fields:
  "agents w0 0 = alice" "agents w0 (Suc 0) = bob" "agents w0 1 = bob"
  "interactionService w0 = new_InteractionService"
  "outside w0 = io0" "scene_characters w0 = Some [0, 1]"
  "characters w0 0 = new_AgentCharacter 0 100 100"
  "characters w0 (Suc 0) = new_AgentCharacter 1 148 164"
  "characters w0 1 = new_AgentCharacter 1 148 164"
  by (simp_all add: w0_def)

lemma w_day_fields:
  "agents w_day 0 = alice" "agents w_day (Suc 0) = bob" "agents w_day 1 = bob"
  "getAgentMemories (interactionService w_day) ''alice'' = [fact1, fact2]"
  "outside w_day = io0"
  by (simp_all add: w_day_def w0_def getAgentMemories_def)

lemma E_ok_fields:
  "Date_now E_ok k = 20000 + int k"
  "dateToString E_ok ms = ms_string ms"
  "Math_random E_ok k = 1 / 10"
  "toString36 E_ok r = ''0.3llllllllll''"
  "getImportanceScore E_ok k eng d = Inr 5"
  "getEmbedding E_ok k eng d = Inr [1 / 2, 1 / 4]"
  "reply E_ok k eng msg a ctx = Inr (Some ''Lovely roses! | Thank you.'')"
  by (simp_all add: E_ok_def)

lemma E_target_fails_fields:
  "Date_now E_target_fails k = 20000 + int k"
  "dateToString E_target_fails ms = ms_string ms"
  "Math_random E_target_fails k = 1 / 10"
  "toString36 E_target_fails r = ''0.3llllllllll''"
  "getImportanceScore E_target_fails k eng d
     = (if eng = 1 then Inl (Error ''timeout'') else Inr 5)"
  "getEmbedding E_target_fails k eng d = Inr [1 / 2, 1 / 4]"
  by (simp_all add: E_target_fails_def E_ok_def)

lemma E_no_text_fields:
  "Date_now E_no_text k = 20000 + int k"
  "dateToString E_no_text ms = ms_string ms"
  "Math_random E_no_text k = 1 / 10"
  "toString36 E_no_text r = ''0.3llllllllll''"
  "getImportanceScore E_no_text k eng d = Inr 5"
  "getEmbedding E_no_text k eng d = Inr [1 / 2, 1 / 4]"
  "reply E_no_text k eng msg a ctx = Inl (Error ''timeout'')"
  by (simp_all add: E_no_text_def E_ok_def)

lemma E_day_fields:
  "Date_now E_day k = 86400004 + 2 * int k"
  "reply E_day k eng msg a ctx = Inr (Some ''Lovely roses! | Thank you.'')"
  by (simp_all add: E_day_def E_ok_def)

lemma E_still_fields:
  "Date_now E_still k = 86400005"
  "reply E_still k eng msg a ctx = Inr (Some ''Lovely roses! | Thank you.'')"
  by (simp_all add: E_still_def E_ok_def)

lemma ms_string_values:
  "ms_string 20006 = ''20006''" "ms_string 20007 = ''20007''"
  "ms_string 20010 = ''20010''" "ms_string 20011 = ''20011''"
  "ms_string 20008 = ''20008''" "ms_string 20012 = ''20012''"
  by (simp_all add: ms_string_def dec.simps digit_char_def)

lemma obs_id_1: "obs_id (Suc 0) = ''obs_1''"
  by (simp add: obs_id_def dec.simps digit_char_def)

lemma observe_ok:
  assumes "getImportanceScore E (tick s) (engine a) d = Inr imp"
    and "getEmbedding E (Suc (tick s)) (engine a) d = Inr emb"
  shows "observe E d a s =
    (Inr (),
     a\<lparr>memoryStream := memoryStream a @
         [Observation \<lparr>id_m = obs_id (Suc (observation (memoryCount a))),
            createdAt = dateToString E (Date_now E (tick s + 2)),
            description = d, importance = imp,
            latestAccess = dateToString E (Date_now E (tick s + 3)),
            embedding = emb\<rparr>],
       memoryCount := (memoryCount a)\<lparr>observation := Suc (observation (memoryCount a))\<rparr>\<rparr>,
     \<lparr>tick = tick s + 4,
      calls = calls s @ [GetImportanceScore (engine a) d (Inr imp),
                         GetEmbedding (engine a) d (Inr emb)]\<rparr>)"
  using assms
  by (simp add: observe_def call_getImportanceScore_def call_getEmbedding_def now_def Let_def
      eval_nat_numeral)

subsection \<open>Alice observes Bob, every collaborator call succeeds\<close>

lemma local_content:
  "interaction_content E_ok 0 1 I_observation w0
     = (''Alice observed Bob doing something'', \<lparr>tick = 0, calls = []\<rparr>)"
  by (simp add: content_observation observation_content_def w0_fields alice_fields bob_fields
      io0_def)

lemma local_initiator:
  "observe E_ok ''Alice observed Bob doing something'' (agents w0 0)
       \<lparr>tick = tick \<lparr>tick = 0, calls = []\<rparr> + 4, calls = calls \<lparr>tick = 0, calls = []\<rparr>\<rparr> =
     (Inr (),
      alice\<lparr>memoryStream :=
          [stored ''obs_1'' ''Alice observed Bob doing something'' ''20006'' ''20007''],
        memoryCount := \<lparr>observation = 1, reflection = 0, plan = 0, conversation = 0\<rparr>\<rparr>,
      \<lparr>tick = 8, calls = scored 0 ''Alice observed Bob doing something''\<rparr>)"
  by (simp add: observe_ok[where imp = 5 and emb = "[1 / 2, 1 / 4]"] E_ok_fields w0_fields
      alice_fields ms_string_values obs_id_1 stored_def scored_def)

lemma local_target:
  "observe E_ok ''Alice observed Bob doing something''
       (if (1::nat) = 0
        then alice\<lparr>memoryStream :=
               [stored ''obs_1'' ''Alice observed Bob doing something'' ''20006'' ''20007''],
             memoryCount := \<lparr>observation = 1, reflection = 0, plan = 0, conversation = 0\<rparr>\<rparr>
        else agents w0 1)
       \<lparr>tick = 8, calls = scored 0 ''Alice observed Bob doing something''\<rparr> =
     (Inr (),
      bob\<lparr>memoryStream :=
          [stored ''obs_1'' ''Alice observed Bob doing something'' ''20010'' ''20011''],
        memoryCount := \<lparr>observation = 1, reflection = 0, plan = 0, conversation = 0\<rparr>\<rparr>,
      \<lparr>tick = 12, calls = scored 0 ''Alice observed Bob doing something''
                            @ scored 1 ''Alice observed Bob doing something''\<rparr>)"
  by (simp add: observe_ok[where imp = 5 and emb = "[1 / 2, 1 / 4]"] E_ok_fields w0_fields
      bob_fields ms_string_values obs_id_1 stored_def scored_def)

lemmas local_run = createInteraction_closed[OF local_content local_initiator local_target refl]

lemma local_run_values:
  "fst (createInteraction E_ok 0 1 I_observation w0) =
     Inr (Some \<lparr>id_i = ''3llllll'', initiatorId = ''alice'', targetId = ''bob'',
           type_i = I_observation, content = ''Alice observed Bob doing something'',
           timestamp = 20001\<rparr>)"
  "memoryStream (agents (snd (createInteraction E_ok 0 1 I_observation w0)) 0)
     = [stored ''obs_1'' ''Alice observed Bob doing something'' ''20006'' ''20007'']"
  "memoryStream (agents (snd (createInteraction E_ok 0 1 I_observation w0)) 1)
     = [stored ''obs_1'' ''Alice observed Bob doing something'' ''20010'' ''20011'']"
  "interactions (interactionService (snd (createInteraction E_ok 0 1 I_observation w0)))
     = [\<lparr>id_i = ''3llllll'', initiatorId = ''alice'', targetId = ''bob'',
           type_i = I_observation, content = ''Alice observed Bob doing something'',
           timestamp = 20001\<rparr>]"
  "new_calls w0 (snd (createInteraction E_ok 0 1 I_observation w0))
     = scored 0 ''Alice observed Bob doing something''
       @ scored 1 ''Alice observed Bob doing something''"
  using local_run
  by (simp_all add: w0_fields alice_fields bob_fields E_ok_fields new_InteractionService_def
      slice_def new_calls_def io0_def)

lemma run_pair: "f = (fst f, snd f)"
  by simp

theorem createInteraction_appends_to_both_witness:
  "(0::nat) \<noteq> 1
   \<and> fst (createInteraction E_ok 0 1 I_observation w0) =
       Inr (Some \<lparr>id_i = ''3llllll'', initiatorId = ''alice'', targetId = ''bob'',
             type_i = I_observation, content = ''Alice observed Bob doing something'',
             timestamp = 20001\<rparr>)
   \<and> memoryStream (agents w0 0) = []
   \<and> memoryStream (agents w0 1) = []
   \<and> memoryStream (agents (snd (createInteraction E_ok 0 1 I_observation w0)) 0)
       = [stored ''obs_1'' ''Alice observed Bob doing something'' ''20006'' ''20007'']
   \<and> memoryStream (agents (snd (createInteraction E_ok 0 1 I_observation w0)) 1)
       = [stored ''obs_1'' ''Alice observed Bob doing something'' ''20010'' ''20011'']
   \<and> interactions (interactionService (snd (createInteraction E_ok 0 1 I_observation w0)))
       = [\<lparr>id_i = ''3llllll'', initiatorId = ''alice'', targetId = ''bob'',
             type_i = I_observation, content = ''Alice observed Bob doing something'',
             timestamp = 20001\<rparr>]"
proof -
  have d: "(0::nat) \<noteq> 1" by simp
  note t = createInteraction_appends_to_both[OF run_pair,
      where E = E_ok and i = 0 and t = 1 and ty = I_observation and w = w0]
  have s: "memoryStream (agents w0 0) = []" "memoryStream (agents w0 1) = []"
    by (simp_all add: w0_fields alice_fields bob_fields)
  from t d s local_run_values(1-4) show ?thesis by (intro conjI) assumption+
qed

theorem observation_content_is_local_witness:
  "createInteraction E_no_text 0 1 I_observation w0
     = createInteraction E_ok 0 1 I_observation w0
   \<and> map content
        (interactions (interactionService (snd (createInteraction E_ok 0 1 I_observation w0))))
       = [''Alice observed Bob doing something'']
   \<and> new_calls w0 (snd (createInteraction E_ok 0 1 I_observation w0))
       = [GetImportanceScore 0 ''Alice observed Bob doing something'' (Inr 5),
          GetEmbedding 0 ''Alice observed Bob doing something'' (Inr [1 / 2, 1 / 4]),
          GetImportanceScore 1 ''Alice observed Bob doing something'' (Inr 5),
          GetEmbedding 1 ''Alice observed Bob doing something'' (Inr [1 / 2, 1 / 4])]"
proof -
  note t = observation_content_is_local[OF run_pair,
      of E_ok 0 1 w0 "\<lambda>k eng msg a ctx. Inl (Error ''timeout'')"]
  from t have "createInteraction E_no_text 0 1 I_observation w0
     = createInteraction E_ok 0 1 I_observation w0"
    by (simp add: E_no_text_def)
  then show ?thesis
    using local_run_values(4,5) by (simp add: scored_def)
qed

subsection \<open>Alice talks to Bob while text generation is down\<close>












subsection \<open>Alice talks to Bob while text generation and scoring are down\<close>







subsection \<open>Alice gossips with two recorded memories near the 24 hour boundary\<close>

lemma rumor_reply_logged:
  assumes "createInteraction E i t I_rumor w = (res, w')"
  shows "\<exists>cs. new_calls w w' =
            Reply (engine (agents w i)) rumor_message (agents w i)
              (rumor_context (agents w i)
                 (recent_facts E (tick (outside w))
                    (getAgentMemories (interactionService w) (id_a (agents w i)))))
              (reply E (tick (outside w)
                        + length (getAgentMemories (interactionService w) (id_a (agents w i))))
                 (engine (agents w i)) rumor_message (agents w i)
                 (rumor_context (agents w i)
                    (recent_facts E (tick (outside w))
                       (getAgentMemories (interactionService w) (id_a (agents w i)))))) # cs
          \<and> (\<forall>c \<in> set cs. \<not> is_reply c)"
proof -
  from createInteraction_calls[OF assms] obtain cs where
    cs: "calls (outside w') = calls (snd (interaction_content E i t I_rumor w)) @ cs"
      "\<forall>c \<in> set cs. \<not> is_reply c"
    by blast
  from cs(1) have "new_calls w w' =
            Reply (engine (agents w i)) rumor_message (agents w i)
              (rumor_context (agents w i)
                 (recent_facts E (tick (outside w))
                    (getAgentMemories (interactionService w) (id_a (agents w i)))))
              (reply E (tick (outside w)
                        + length (getAgentMemories (interactionService w) (id_a (agents w i))))
                 (engine (agents w i)) rumor_message (agents w i)
                 (rumor_context (agents w i)
                    (recent_facts E (tick (outside w))
                       (getAgentMemories (interactionService w) (id_a (agents w i)))))) # cs"
    by (intro new_calls_append) (simp add: content_rumor Let_def)
  with cs(2) show ?thesis by blast
qed

lemma recent_facts_day: "recent_facts E_day 0 [fact1, fact2] = [fact1]"
  by (simp add: recent_facts_def E_day_fields fact1_def fact2_def upt_rec[of 0] upt_rec[of 1])

lemma recent_facts_still: "recent_facts E_still 0 [fact1, fact2] = [fact2]"
  by (simp add: recent_facts_def E_still_fields fact1_def fact2_def upt_rec[of 0] upt_rec[of 1])

lemma rumor_context_fact1:
  "rumor_context alice [fact1] =
     ''\<newline>      Your personality traits: curious, kind\<newline>      Recent events and information you know about:\<newline>      Bob burnt the bread\<newline>    ''"
  by (simp add: rumor_context_def alice_fields fact1_def)

theorem rumor_fact_in_window_not_supplied:
  "fact2 \<in> set (getAgentMemories (interactionService w_day) (id_a (agents w_day 0)))
   \<and> Date_now E_day (tick (outside w_day)) - 24 * 60 * 60 * 1000 < timestamp_s fact2
   \<and> content_s fact2 = ''Bob bought a dog''
   \<and> hd (new_calls w_day (snd (createInteraction E_day 0 1 I_rumor w_day))) =
       Reply 0 rumor_message alice
         ''\<newline>      Your personality traits: curious, kind\<newline>      Recent events and information you know about:\<newline>      Bob burnt the bread\<newline>    ''
         (Inr (Some ''Lovely roses! | Thank you.''))"
proof -
  from rumor_reply_logged[OF run_pair, where E = E_day and i = 0 and t = 1 and w = w_day]
  have "hd (new_calls w_day (snd (createInteraction E_day 0 1 I_rumor w_day))) =
       Reply 0 rumor_message alice (rumor_context alice [fact1])
         (Inr (Some ''Lovely roses! | Thank you.''))"
    by (auto simp: w_day_fields alice_fields io0_def recent_facts_day E_day_fields)
  then show ?thesis
    by (simp add: rumor_context_fact1 w_day_fields alice_fields io0_def E_day_fields
        fact2_def)
qed

lemma rumor_context_fact2:
  "rumor_context alice [fact2] =
     ''\<newline>      Your personality traits: curious, kind\<newline>      Recent events and information you know about:\<newline>      Bob bought a dog\<newline>    ''"
  by (simp add: rumor_context_def alice_fields fact2_def)

theorem rumor_facts_supplied_witness:
  "Date_now E_still 0 = 86400005 \<and> Date_now E_still 1 = 86400005
   \<and> timestamp_s fact1 = 5 \<and> timestamp_s fact2 = 6
   \<and> getAgentMemories (interactionService w_day) (id_a (agents w_day 0)) = [fact1, fact2]
   \<and> recent_facts E_still (tick (outside w_day))
        (getAgentMemories (interactionService w_day) (id_a (agents w_day 0))) = [fact2]
   \<and> hd (new_calls w_day (snd (createInteraction E_still 0 1 I_rumor w_day))) =
       Reply 0 rumor_message alice
         ''\<newline>      Your personality traits: curious, kind\<newline>      Recent events and information you know about:\<newline>      Bob bought a dog\<newline>    ''
         (Inr (Some ''Lovely roses! | Thank you.''))"
proof -
  note t = rumor_facts_supplied[OF run_pair,
      where E = E_still and i = 0 and t = 1 and w = w_day and T = 86400005]
  have known: "getAgentMemories (interactionService w_day) (id_a (agents w_day 0))
      = [fact1, fact2]"
    by (simp add: w_day_fields alice_fields)
  have still: "\<forall>k. tick (outside w_day) \<le> k
               \<and> k < tick (outside w_day)
                   + length (getAgentMemories (interactionService w_day) (id_a (agents w_day 0)))
               \<longrightarrow> Date_now E_still k = 86400005"
    by (simp add: E_still_fields)
  from t[THEN conjunct2, THEN conjunct1, THEN mp, OF still]
  have facts: "recent_facts E_still (tick (outside w_day))
        (getAgentMemories (interactionService w_day) (id_a (agents w_day 0))) = [fact2]"
    by (simp add: known fact1_def fact2_def)
  from rumor_reply_logged[OF run_pair,
      where E = E_still and i = 0 and t = 1 and w = w_day]
  have "hd (new_calls w_day (snd (createInteraction E_still 0 1 I_rumor w_day))) =
       Reply 0 rumor_message alice (rumor_context alice [fact2])
         (Inr (Some ''Lovely roses! | Thank you.''))"
    by (auto simp: w_day_fields alice_fields io0_def recent_facts_still E_still_fields)
  then have logged:
    "hd (new_calls w_day (snd (createInteraction E_still 0 1 I_rumor w_day))) =
       Reply 0 rumor_message alice
         ''\<newline>      Your personality traits: curious, kind\<newline>      Recent events and information you know about:\<newline>      Bob bought a dog\<newline>    ''
         (Inr (Some ''Lovely roses! | Thank you.''))"
    by (simp only: rumor_context_fact2)
  have stamps: "timestamp_s fact1 = 5" "timestamp_s fact2 = 6"
    by (simp_all add: fact1_def fact2_def)
  have clock: "Date_now E_still 0 = 86400005" "Date_now E_still 1 = 86400005"
    by (simp_all add: E_still_fields)
  show ?thesis by (intro conjI clock stamps known facts logged)
qed

subsection \<open>Alice observes Bob, whose engine cannot score\<close>

lemma partial_content:
  "interaction_content E_target_fails 0 1 I_observation w0
     = (''Alice observed Bob doing something'', \<lparr>tick = 0, calls = []\<rparr>)"
  by (simp add: content_observation observation_content_def w0_fields alice_fields bob_fields
      io0_def)

lemma partial_initiator:
  "observe E_target_fails ''Alice observed Bob doing something'' (agents w0 0)
       \<lparr>tick = tick \<lparr>tick = 0, calls = []\<rparr> + 4, calls = calls \<lparr>tick = 0, calls = []\<rparr>\<rparr> =
     (Inr (),
      alice\<lparr>memoryStream :=
          [stored ''obs_1'' ''Alice observed Bob doing something'' ''20006'' ''20007''],
        memoryCount := \<lparr>observation = 1, reflection = 0, plan = 0, conversation = 0\<rparr>\<rparr>,
      \<lparr>tick = 8, calls = scored 0 ''Alice observed Bob doing something''\<rparr>)"
  by (simp add: observe_ok[where imp = 5 and emb = "[1 / 2, 1 / 4]"] E_target_fails_fields
      w0_fields alice_fields ms_string_values obs_id_1 stored_def scored_def)

lemma partial_target:
  "observe E_target_fails ''Alice observed Bob doing something''
       (if (1::nat) = 0
        then alice\<lparr>memoryStream :=
               [stored ''obs_1'' ''Alice observed Bob doing something'' ''20006'' ''20007''],
             memoryCount := \<lparr>observation = 1, reflection = 0, plan = 0, conversation = 0\<rparr>\<rparr>
        else agents w0 1)
       \<lparr>tick = 8, calls = scored 0 ''Alice observed Bob doing something''\<rparr> =
     (Inl (Error ''timeout''), bob,
      \<lparr>tick = 9,
       calls = scored 0 ''Alice observed Bob doing something''
               @ [GetImportanceScore 1 ''Alice observed Bob doing something''
                    (Inl (Error ''timeout''))]\<rparr>)"
  by (simp add: observe_def call_getImportanceScore_def E_target_fails_fields w0_fields
      bob_fields)

lemmas partial_run =
  createInteraction_closed[OF partial_content partial_initiator partial_target refl]

theorem createInteraction_partial_application:
  "fst (createInteraction E_target_fails 0 1 I_observation w0) = Inl (Error ''timeout'')
   \<and> memoryStream (agents w0 0) = []
   \<and> memoryStream (agents (snd (createInteraction E_target_fails 0 1 I_observation w0)) 0)
       = [Observation \<lparr>id_m = ''obs_1'', createdAt = ''20006'',
             description = ''Alice observed Bob doing something'', importance = 5,
             latestAccess = ''20007'', embedding = [1 / 2, 1 / 4]\<rparr>]
   \<and> memoryStream (agents (snd (createInteraction E_target_fails 0 1 I_observation w0)) 1)
       = []
   \<and> interactions (interactionService w0) = []
   \<and> interactions (interactionService
         (snd (createInteraction E_target_fails 0 1 I_observation w0)))
       = [\<lparr>id_i = ''3llllll'', initiatorId = ''alice'', targetId = ''bob'',
           type_i = I_observation, content = ''Alice observed Bob doing something'',
           timestamp = 20001\<rparr>]"
  using partial_run
  by (simp add: w0_fields alice_fields bob_fields E_target_fails_fields
      new_InteractionService_def slice_def stored_def)

section \<open>Properties of checkForInteractions\<close>

lemma split_on_absent: "c \<notin> set s \<Longrightarrow> split_on c s = [s]"
  by (induction s) auto

lemma createInteraction_scoring_ok:
  assumes score: "\<forall>k eng d. \<exists>v. getImportanceScore E k eng d = Inr v"
    and embed: "\<forall>k eng d. \<exists>v. getEmbedding E k eng d = Inr v"
    and c: "interaction_content E i t ty w = (c, s1)"
    and x: "x = \<lparr>id_i = slice (toString36 E (Math_random E (tick s1))) 2 9,
                 initiatorId = id_a (agents w i), targetId = id_a (agents w t),
                 type_i = ty, content = c, timestamp = Date_now E (Suc (tick s1))\<rparr>"
  shows "fst (createInteraction E i t ty w) = Inr (Some x)"
    and "interactions (interactionService (snd (createInteraction E i t ty w))) =
           interactions (interactionService w) @ [x]"
    and "tick (outside (snd (createInteraction E i t ty w))) = tick s1 + 12"
    and "id_a (agents (snd (createInteraction E i t ty w)) r) = id_a (agents w r)"
proof -
  have ok: "\<exists>a' cs. observe E d a s = (Inr (), a', \<lparr>tick = tick s + 4, calls = cs\<rparr>)
      \<and> id_a a' = id_a a" for d a s
  proof -
    from score obtain imp where 1: "getImportanceScore E (tick s) (engine a) d = Inr imp"
      by blast
    from embed obtain emb where 2: "getEmbedding E (Suc (tick s)) (engine a) d = Inr emb"
      by blast
    show ?thesis unfolding observe_ok[OF 1 2] by simp
  qed
  from ok[of c "agents w i" "\<lparr>tick = tick s1 + 4, calls = calls s1\<rparr>"] obtain a1 cs1 where
    o1: "observe E c (agents w i) \<lparr>tick = tick s1 + 4, calls = calls s1\<rparr>
           = (Inr (), a1, \<lparr>tick = tick s1 + 8, calls = cs1\<rparr>)"
    and i1: "id_a a1 = id_a (agents w i)"
    by auto
  from ok[of c "if t = i then a1 else agents w t" "\<lparr>tick = tick s1 + 8, calls = cs1\<rparr>"]
  obtain a2 cs2 where
    o2: "observe E c (if t = i then a1 else agents w t) \<lparr>tick = tick s1 + 8, calls = cs1\<rparr>
           = (Inr (), a2, \<lparr>tick = tick s1 + 12, calls = cs2\<rparr>)"
    and i2: "id_a a2 = id_a (if t = i then a1 else agents w t)"
    by auto
  note r = createInteraction_closed[OF c o1 o2 x]
  from r(1) show "fst (createInteraction E i t ty w) = Inr (Some x)" by simp
  from r(4) show "interactions (interactionService (snd (createInteraction E i t ty w))) =
           interactions (interactionService w) @ [x]" .
  from r(3) show "tick (outside (snd (createInteraction E i t ty w))) = tick s1 + 12" by simp
  from r(2) i1 i2 show "id_a (agents (snd (createInteraction E i t ty w)) r) = id_a (agents w r)"
    by simp
qed

lemma interact_with_type_error:
  assumes "other \<noteq> this"
    and "canInteract (interactionService w) (characters w this) (characters w other)"
    and "Math_random E (tick (outside w)) < 0.3"
    and "Math_random E (Suc (tick (outside w))) < 0.7"
    and "createInteraction E (agent (characters w this)) (agent (characters w other))
           I_conversation (w\<lparr>outside := (outside w)\<lparr>tick := tick (outside w) + 2\<rparr>\<rparr>)
         = (Inr (Some x), w1)"
    and "split_on CHR ''|'' (content x) = [p]"
  shows "interact_with E this other w =
           (Inl (TypeError ''Cannot read properties of undefined (reading 'trim')''), w1)"
  using assms by (simp add: interact_with_def random_def)

text \<open>
  The defect in general. When text generation is down and scoring works, a check that
  passes the gate, finds the other sprite in range and draws an interaction creates and
  records the interaction with the placeholder content, then ends in the \<open>TypeError\<close>:
  no \<open>lastInteractionTime\<close> has been assigned.
\<close>

lemma check_without_text:
  assumes score: "\<forall>k eng d. \<exists>v. getImportanceScore E k eng d = Inr v"
    and embed: "\<forall>k eng d. \<exists>v. getEmbedding E k eng d = Inr v"
    and down: "\<forall>k eng msg a ctx. \<exists>e. reply E k eng msg a ctx = Inl e"
    and gate: "\<not> Date_now E (tick (outside w)) - lastInteractionTime (characters w this)
                 < minInteractionInterval (characters w this)"
    and scene: "scene_characters w = Some [this, other]" "other \<noteq> this"
    and near: "canInteract (interactionService w) (characters w this) (characters w other)"
    and chance: "Math_random E (Suc (tick (outside w))) < 0.3"
    and kind: "Math_random E (Suc (Suc (tick (outside w)))) < 0.7"
  shows "fst (checkForInteractions E this w)
           = Inl (TypeError ''Cannot read properties of undefined (reading 'trim')'')"
    and "characters (snd (checkForInteractions E this w)) = characters w"
    and "scene_characters (snd (checkForInteractions E this w)) = scene_characters w"
    and "proximityThreshold (interactionService (snd (checkForInteractions E this w)))
           = proximityThreshold (interactionService w)"
    and "interactions (interactionService (snd (checkForInteractions E this w))) =
           interactions (interactionService w) @
           [\<lparr>id_i = slice (toString36 E (Math_random E (tick (outside w) + 4))) 2 9,
             initiatorId = id_a (agents w (agent (characters w this))),
             targetId = id_a (agents w (agent (characters w other))),
             type_i = I_conversation, content = ''Failed to generate conversation'',
             timestamp = Date_now E (tick (outside w) + 5)\<rparr>]"
    and "tick (outside (snd (checkForInteractions E this w))) = tick (outside w) + 16"
    and "id_a (agents (snd (checkForInteractions E this w)) r) = id_a (agents w r)"
proof -
  let ?W0 = "w\<lparr>outside := (outside w)\<lparr>tick := Suc (tick (outside w))\<rparr>\<rparr>"
  let ?W3 = "?W0\<lparr>outside := (outside ?W0)\<lparr>tick := tick (outside ?W0) + 2\<rparr>\<rparr>"
  let ?i = "agent (characters ?W0 this)" and ?t = "agent (characters ?W0 other)"
  let ?x = "\<lparr>id_i = slice (toString36 E (Math_random E (tick (outside w) + 4))) 2 9,
             initiatorId = id_a (agents w (agent (characters w this))),
             targetId = id_a (agents w (agent (characters w other))),
             type_i = I_conversation, content = ''Failed to generate conversation'',
             timestamp = Date_now E (tick (outside w) + 5)\<rparr>"
  let ?run = "createInteraction E ?i ?t I_conversation ?W3"
  from down obtain e where
    "reply E (tick (outside ?W3)) (engine (agents ?W3 ?i)) (conversation_message (agents ?W3 ?t))
       (agents ?W3 ?i) (conversation_context (agents ?W3 ?i) (agents ?W3 ?t)) = Inl e"
    by blast
  then have c: "interaction_content E ?i ?t I_conversation ?W3 =
      (''Failed to generate conversation'', snd (interaction_content E ?i ?t I_conversation ?W3))"
    and t1: "tick (snd (interaction_content E ?i ?t I_conversation ?W3)) = tick (outside w) + 4"
    by (simp_all add: content_conversation response_or_def)
  have x: "?x = \<lparr>id_i = slice (toString36 E (Math_random E
                      (tick (snd (interaction_content E ?i ?t I_conversation ?W3))))) 2 9,
                 initiatorId = id_a (agents ?W3 ?i), targetId = id_a (agents ?W3 ?t),
                 type_i = I_conversation, content = ''Failed to generate conversation'',
                 timestamp = Date_now E
                   (Suc (tick (snd (interaction_content E ?i ?t I_conversation ?W3))))\<rparr>"
    unfolding t1 by (simp add: add.commute)
  note ok = createInteraction_scoring_ok[OF score embed c x]
  have run: "?run = (Inr (Some ?x), snd ?run)"
    using ok(1) by (metis prod.collapse)
  have bar: "split_on CHR ''|'' (content ?x) = [''Failed to generate conversation'']"
    by simp
  have near0: "canInteract (interactionService ?W0) (characters ?W0 this) (characters ?W0 other)"
    using near by simp
  have iw: "interact_with E this other ?W0 =
      (Inl (TypeError ''Cannot read properties of undefined (reading 'trim')''), snd ?run)"
    by (rule interact_with_type_error[OF scene(2) near0 _ _ run bar])
      (use chance kind in simp_all)
  have skip: "interact_with E this this ?W0 = (Inr (), ?W0)"
    by (simp add: interact_with_def)
  have check: "checkForInteractions E this w =
      (Inl (TypeError ''Cannot read properties of undefined (reading 'trim')''), snd ?run)"
    using gate scene(1) by (simp add: checkForInteractions_def now_def skip iw)
  note fr = createInteraction_record(2-4)[OF run]
  show "fst (checkForInteractions E this w)
           = Inl (TypeError ''Cannot read properties of undefined (reading 'trim')'')"
    by (simp add: check)
  show "characters (snd (checkForInteractions E this w)) = characters w"
    using fr(2) by (simp add: check)
  show "scene_characters (snd (checkForInteractions E this w)) = scene_characters w"
    using fr(3) by (simp add: check)
  show "proximityThreshold (interactionService (snd (checkForInteractions E this w)))
           = proximityThreshold (interactionService w)"
    using fr(1) by (simp add: check)
  show "interactions (interactionService (snd (checkForInteractions E this w))) =
           interactions (interactionService w) @ [?x]"
    using ok(2) by (simp add: check)
  show "tick (outside (snd (checkForInteractions E this w))) = tick (outside w) + 16"
    using ok(3) t1 by (simp add: check)
  show "id_a (agents (snd (checkForInteractions E this w)) r) = id_a (agents w r)"
    using ok(4)[of r] by (simp add: check)
qed

subsection \<open>What the gate does when the cooldown is set\<close>

lemma checkForInteractions_in_cooldown:
  assumes "Date_now E (tick (outside w)) - lastInteractionTime (characters w this)
             < minInteractionInterval (characters w this)"
  shows "checkForInteractions E this w
           = (Inr (), w\<lparr>outside := (outside w)\<lparr>tick := Suc (tick (outside w))\<rparr>\<rparr>)"
  using assms by (simp add: checkForInteractions_def now_def)

lemma interact_with_out_of_range:
  "\<not> canInteract (interactionService w) (characters w this) (characters w other)
   \<Longrightarrow> interact_with E this other w = (Inr (), w)"
  by (simp add: interact_with_def)

lemma interact_with_sets_cooldown:
  assumes "other \<noteq> this"
    and "canInteract (interactionService w) (characters w this) (characters w other)"
    and "Math_random E (tick (outside w)) < 0.3"
    and "Math_random E (Suc (tick (outside w))) < 0.7"
    and "createInteraction E (agent (characters w this)) (agent (characters w other))
           I_conversation (w\<lparr>outside := (outside w)\<lparr>tick := tick (outside w) + 2\<rparr>\<rparr>)
         = (Inr (Some x), w1)"
    and "split_on CHR ''|'' (content x) = p # q # ps"
  shows "fst (interact_with E this other w) = Inr ()"
    and "lastInteractionTime (characters (snd (interact_with E this other w)) this)
           = Date_now E (tick (outside w1))"
    and "lastInteractionTime (characters (snd (interact_with E this other w)) other)
           = Date_now E (Suc (tick (outside w1)))"
  using assms by (simp_all add: interact_with_def random_def now_def Let_def)

text \<open>
  A pass of the loop that ends in an exception leaves every \<open>lastInteractionTime\<close> as it
  was; the only assignments are the two after a returned interaction.
\<close>

lemma interact_with_failed_keeps_cooldown:
  assumes "fst (interact_with E this other w) = Inl e"
  shows "characters (snd (interact_with E this other w)) = characters w"
  using assms
  by (auto simp: interact_with_def random_def now_def Let_def
      split: if_splits prod.splits sum.splits option.splits list.splits
      dest!: createInteraction_record(3))

text \<open>
  A \<open>lastInteractionTime\<close> changes in a pass of the loop only if the \<open>createInteraction\<close>
  call of that pass returned an interaction.
\<close>

lemma cooldown_only_after_interaction:
  assumes "characters (snd (interact_with E this other w)) \<noteq> characters w"
  shows "\<exists>ty s x w1.
           createInteraction E (agent (characters w this)) (agent (characters w other)) ty
             (w\<lparr>outside := s\<rparr>) = (Inr (Some x), w1)"
proof -
  let ?ty = "if Math_random E (Suc (tick (outside w))) < 0.7 then I_conversation else I_rumor"
  let ?s = "(outside w)\<lparr>tick := Suc (Suc (tick (outside w)))\<rparr>"
  let ?run = "createInteraction E (agent (characters w this)) (agent (characters w other)) ?ty
             (w\<lparr>outside := ?s\<rparr>)"
  have fr: "characters (snd ?run) = characters w"
    using createInteraction_record(3)[of E _ _ ?ty "w\<lparr>outside := ?s\<rparr>" "fst ?run" "snd ?run"]
    by simp
  have "\<exists>x. fst ?run = Inr (Some x)"
  proof (rule ccontr)
    assume "\<not> (\<exists>x. fst ?run = Inr (Some x))"
    then have "(\<exists>e. fst ?run = Inl e) \<or> fst ?run = Inr None"
      by (cases "fst ?run") (auto simp: option.exhaust)
    then have "characters (snd (interact_with E this other w)) = characters w"
      using fr
      by (auto simp: interact_with_def random_def Let_def split: prod.splits)
    with assms show False by simp
  qed
  then obtain x where "?run = (Inr (Some x), snd ?run)" by (metis prod.collapse)
  then show ?thesis by blast
qed

subsection \<open>Two checks in a row\<close>

lemma sprite_fields:
  "lastInteractionTime (new_AgentCharacter a px py) = 0"
  "minInteractionInterval (new_AgentCharacter a px py) = 10000"
  "agent (new_AgentCharacter a px py) = a"
  "pos_x (new_AgentCharacter a px py) = px"
  "pos_y (new_AgentCharacter a px py) = py"
  by (simp_all add: new_AgentCharacter_def)

lemma sprites_in_range:
  "proximityThreshold S = 100 \<Longrightarrow>
   canInteract S (new_AgentCharacter a 100 100) (new_AgentCharacter b 148 164)"
  by (simp add: canInteract_sq sprite_fields)

lemma E_no_text_available:
  "\<forall>k eng d. \<exists>v. getImportanceScore E_no_text k eng d = Inr v"
  "\<forall>k eng d. \<exists>v. getEmbedding E_no_text k eng d = Inr v"
  "\<forall>k eng msg a ctx. \<exists>e. reply E_no_text k eng msg a ctx = Inl e"
  by (simp_all add: E_no_text_fields)

lemma first_check:
  "fst (checkForInteractions E_no_text 0 w0)
     = Inl (TypeError ''Cannot read properties of undefined (reading 'trim')'')"
  "characters (snd (checkForInteractions E_no_text 0 w0)) = characters w0"
  "scene_characters (snd (checkForInteractions E_no_text 0 w0)) = Some [0, 1]"
  "proximityThreshold (interactionService (snd (checkForInteractions E_no_text 0 w0))) = 100"
  "interactions (interactionService (snd (checkForInteractions E_no_text 0 w0))) =
     [\<lparr>id_i = ''3llllll'', initiatorId = ''alice'', targetId = ''bob'',
       type_i = I_conversation, content = ''Failed to generate conversation'',
       timestamp = 20005\<rparr>]"
  "tick (outside (snd (checkForInteractions E_no_text 0 w0))) = 16"
  "id_a (agents (snd (checkForInteractions E_no_text 0 w0)) 0) = ''alice''"
  "id_a (agents (snd (checkForInteractions E_no_text 0 w0)) 1) = ''bob''"
proof -
  have gate: "\<not> Date_now E_no_text (tick (outside w0)) - lastInteractionTime (characters w0 0)
                 < minInteractionInterval (characters w0 0)"
    by (simp add: w0_fields sprite_fields E_no_text_fields io0_def)
  have scene: "scene_characters w0 = Some [0, 1]" "(1::nat) \<noteq> 0"
    by (simp_all add: w0_fields)
  have near: "canInteract (interactionService w0) (characters w0 0) (characters w0 1)"
    using sprites_in_range[of "interactionService w0" 0 1]
    by (simp add: w0_fields new_InteractionService_def)
  have chance: "Math_random E_no_text (Suc (tick (outside w0))) < 0.3"
    "Math_random E_no_text (Suc (Suc (tick (outside w0)))) < 0.7"
    by (simp_all add: E_no_text_fields)
  note r = check_without_text[OF E_no_text_available gate scene near chance]
  show "fst (checkForInteractions E_no_text 0 w0)
     = Inl (TypeError ''Cannot read properties of undefined (reading 'trim')'')"
    by (rule r(1))
  show "characters (snd (checkForInteractions E_no_text 0 w0)) = characters w0"
    by (rule r(2))
  show "scene_characters (snd (checkForInteractions E_no_text 0 w0)) = Some [0, 1]"
    using r(3) scene(1) by simp
  show "proximityThreshold (interactionService (snd (checkForInteractions E_no_text 0 w0))) = 100"
    using r(4) by (simp add: w0_fields new_InteractionService_def)
  show "interactions (interactionService (snd (checkForInteractions E_no_text 0 w0))) =
     [\<lparr>id_i = ''3llllll'', initiatorId = ''alice'', targetId = ''bob'',
       type_i = I_conversation, content = ''Failed to generate conversation'',
       timestamp = 20005\<rparr>]"
    using r(5)
    by (simp add: w0_fields sprite_fields alice_fields bob_fields E_no_text_fields io0_def
        new_InteractionService_def slice_def)
  show "tick (outside (snd (checkForInteractions E_no_text 0 w0))) = 16"
    using r(6) by (simp add: w0_fields io0_def)
  show "id_a (agents (snd (checkForInteractions E_no_text 0 w0)) 0) = ''alice''"
    using r(7)[of 0] by (simp add: w0_fields alice_fields)
  show "id_a (agents (snd (checkForInteractions E_no_text 0 w0)) 1) = ''bob''"
    using r(7)[of 1] by (simp add: w0_fields bob_fields)
qed

text \<open>
  C5 fails on the code, here at a concrete input. Text generation is down, so the
  interaction that Alice's sprite creates with Bob's has the placeholder content, which
  has no \<open>|\<close>: the first check records the interaction and ends in the \<open>TypeError\<close> with
  \<open>lastInteractionTime\<close> still 0. The next check of the same sprite, 16 milliseconds
  later, passes the gate and records a second interaction of the same ordered pair: two
  interactions of one pair, 16 milliseconds apart, with an interval of 10000.
\<close>

theorem cooldown_not_set_after_fallback:
  "fst (checkForInteractions E_no_text 0 w0)
     = Inl (TypeError ''Cannot read properties of undefined (reading 'trim')'')
   \<and> lastInteractionTime (characters (snd (checkForInteractions E_no_text 0 w0)) 0) = 0
   \<and> minInteractionInterval (characters (snd (checkForInteractions E_no_text 0 w0)) 0) = 10000
   \<and> interactions (interactionService (snd (checkForInteractions E_no_text 0 w0))) =
       [\<lparr>id_i = ''3llllll'', initiatorId = ''alice'', targetId = ''bob'',
         type_i = I_conversation, content = ''Failed to generate conversation'',
         timestamp = 20005\<rparr>]
   \<and> interactions (interactionService
         (snd (checkForInteractions E_no_text 0 (snd (checkForInteractions E_no_text 0 w0))))) =
       [\<lparr>id_i = ''3llllll'', initiatorId = ''alice'', targetId = ''bob'',
         type_i = I_conversation, content = ''Failed to generate conversation'',
         timestamp = 20005\<rparr>,
        \<lparr>id_i = ''3llllll'', initiatorId = ''alice'', targetId = ''bob'',
         type_i = I_conversation, content = ''Failed to generate conversation'',
         timestamp = 20021\<rparr>]"
proof -
  let ?w1 = "snd (checkForInteractions E_no_text 0 w0)"
  have gate: "\<not> Date_now E_no_text (tick (outside ?w1)) - lastInteractionTime (characters ?w1 0)
                 < minInteractionInterval (characters ?w1 0)"
    by (simp add: first_check w0_fields sprite_fields E_no_text_fields)
  have scene: "scene_characters ?w1 = Some [0, 1]" "(1::nat) \<noteq> 0"
    by (simp_all add: first_check)
  have near: "canInteract (interactionService ?w1) (characters ?w1 0) (characters ?w1 1)"
    using sprites_in_range[OF first_check(4), of 0 1]
    by (simp add: first_check w0_fields)
  have chance: "Math_random E_no_text (Suc (tick (outside ?w1))) < 0.3"
    "Math_random E_no_text (Suc (Suc (tick (outside ?w1)))) < 0.7"
    by (simp_all add: E_no_text_fields)
  note r = check_without_text[OF E_no_text_available gate scene near chance]
  have second: "interactions (interactionService (snd (checkForInteractions E_no_text 0 ?w1))) =
       [\<lparr>id_i = ''3llllll'', initiatorId = ''alice'', targetId = ''bob'',
         type_i = I_conversation, content = ''Failed to generate conversation'',
         timestamp = 20005\<rparr>,
        \<lparr>id_i = ''3llllll'', initiatorId = ''alice'', targetId = ''bob'',
         type_i = I_conversation, content = ''Failed to generate conversation'',
         timestamp = 20021\<rparr>]"
    using r(5) first_check(7,8)
    by (simp add: first_check(2,5,6) w0_fields sprite_fields E_no_text_fields slice_def)
  have cool: "lastInteractionTime (characters ?w1 0) = 0"
    "minInteractionInterval (characters ?w1 0) = 10000"
    by (simp_all add: first_check w0_fields sprite_fields)
  show ?thesis by (intro conjI first_check(1) cool first_check(5) second)
qed

end
